theory Spec2Isabelle
  imports Complex_Main
begin

section \<open>JavaScript values\<close>

text \<open>
  A JavaScript number is modelled as a real number or one of the three special values.
  Rounding, overflow and the sign of zero are outside the model: arithmetic on finite
  values is exact.
\<close>

datatype jsnum = Fin real | PInf | NInf | NaN

text \<open>
  A cell of a parsed row. With \<open>dynamicTyping\<close> the parser yields strings, numbers,
  booleans and \<open>null\<close>; reading a key the row does not have yields \<open>undefined\<close>.
\<close>

datatype jsval = JUndefined | JNull | JBool bool | JNum jsnum | JStr string

fun jsadd :: "jsnum \<Rightarrow> jsnum \<Rightarrow> jsnum" where
  "jsadd NaN _ = NaN"
| "jsadd _ NaN = NaN"
| "jsadd (Fin a) (Fin b) = Fin (a + b)"
| "jsadd PInf NInf = NaN"
| "jsadd NInf PInf = NaN"
| "jsadd PInf _ = PInf"
| "jsadd _ PInf = PInf"
| "jsadd NInf _ = NInf"
| "jsadd _ NInf = NInf"

fun jsmul :: "jsnum \<Rightarrow> jsnum \<Rightarrow> jsnum" where
  "jsmul NaN _ = NaN"
| "jsmul _ NaN = NaN"
| "jsmul (Fin a) (Fin b) = Fin (a * b)"
| "jsmul (Fin a) PInf = (if a = 0 then NaN else if 0 < a then PInf else NInf)"
| "jsmul (Fin a) NInf = (if a = 0 then NaN else if 0 < a then NInf else PInf)"
| "jsmul PInf (Fin b) = (if b = 0 then NaN else if 0 < b then PInf else NInf)"
| "jsmul NInf (Fin b) = (if b = 0 then NaN else if 0 < b then NInf else PInf)"
| "jsmul PInf PInf = PInf"
| "jsmul NInf NInf = PInf"
| "jsmul PInf NInf = NInf"
| "jsmul NInf PInf = NInf"

text \<open>Division; a zero divisor is the positive zero.\<close>

fun jsdiv :: "jsnum \<Rightarrow> jsnum \<Rightarrow> jsnum" where
  "jsdiv NaN _ = NaN"
| "jsdiv _ NaN = NaN"
| "jsdiv (Fin a) (Fin b) =
     (if b = 0 then (if a = 0 then NaN else if 0 < a then PInf else NInf) else Fin (a / b))"
| "jsdiv (Fin a) PInf = Fin 0"
| "jsdiv (Fin a) NInf = Fin 0"
| "jsdiv PInf (Fin b) = (if 0 \<le> b then PInf else NInf)"
| "jsdiv NInf (Fin b) = (if 0 \<le> b then NInf else PInf)"
| "jsdiv PInf PInf = NaN"
| "jsdiv PInf NInf = NaN"
| "jsdiv NInf PInf = NaN"
| "jsdiv NInf NInf = NaN"

fun jsmax :: "jsnum \<Rightarrow> jsnum \<Rightarrow> jsnum" where
  "jsmax NaN _ = NaN"
| "jsmax _ NaN = NaN"
| "jsmax (Fin a) (Fin b) = Fin (max a b)"
| "jsmax PInf _ = PInf"
| "jsmax _ PInf = PInf"
| "jsmax NInf y = y"
| "jsmax x NInf = x"

text \<open>\<open>Math.max(...values)\<close>: \<open>-Infinity\<close> for no argument, \<open>NaN\<close> as soon as one argument is.\<close>

definition mathMax :: "jsnum list \<Rightarrow> jsnum" where
  "mathMax xs = foldl jsmax NInf xs"

definition jsneg :: "jsnum \<Rightarrow> jsnum" where
  "jsneg x = (case x of Fin r \<Rightarrow> Fin (- r) | PInf \<Rightarrow> NInf | NInf \<Rightarrow> PInf | NaN \<Rightarrow> NaN)"

text \<open>\<open>x || 0\<close> on a number: \<open>NaN\<close> and \<open>0\<close> are the falsy numbers.\<close>

definition orZero :: "jsnum \<Rightarrow> jsnum" where
  "orZero x = (if x = NaN \<or> x = Fin 0 then Fin 0 else x)"

text \<open>\<open>!v\<close>\<close>

definition falsy :: "jsval \<Rightarrow> bool" where
  "falsy v =
     (case v of
        JUndefined \<Rightarrow> True
      | JNull \<Rightarrow> True
      | JBool b \<Rightarrow> \<not> b
      | JNum n \<Rightarrow> n = Fin 0 \<or> n = NaN
      | JStr s \<Rightarrow> s = [])"

text \<open>
  \<open>v.toString()\<close>. The text of a number is the host's \<open>Number.prototype.toString\<close>, taken
  as the parameter \<open>numStr\<close>. Both callers test \<open>!v\<close> first, so that \<open>null\<close> and
  \<open>undefined\<close>, on which the call would throw, never reach it.
\<close>

definition jsToString :: "(jsnum \<Rightarrow> string) \<Rightarrow> jsval \<Rightarrow> string" where
  "jsToString numStr v =
     (case v of
        JStr s \<Rightarrow> s
      | JBool b \<Rightarrow> (if b then ''true'' else ''false'')
      | JNum n \<Rightarrow> numStr n
      | JNull \<Rightarrow> []
      | JUndefined \<Rightarrow> [])"


section \<open>Strings\<close>

text \<open>
  Strings are lists of 8-bit characters; white space and letter case are those of ASCII.
\<close>

definition isWhiteSpace :: "char \<Rightarrow> bool" where
  "isWhiteSpace c = (c \<in> set [CHR '' '', CHR 0x09, CHR 0x0A, CHR 0x0B, CHR 0x0C, CHR 0x0D])"

definition trim :: "string \<Rightarrow> string" where
  "trim s = rev (dropWhile isWhiteSpace (rev (dropWhile isWhiteSpace s)))"

definition lowerChar :: "char \<Rightarrow> char" where
  "lowerChar c =
     (case map_of (zip ''ABCDEFGHIJKLMNOPQRSTUVWXYZ'' ''abcdefghijklmnopqrstuvwxyz'') c of
        Some l \<Rightarrow> l
      | None \<Rightarrow> c)"

definition toLowerCase :: "string \<Rightarrow> string" where
  "toLowerCase s = map lowerChar s"

definition isDigit :: "char \<Rightarrow> bool" where
  "isDigit c = (c \<in> set ''0123456789'')"

definition digitVal :: "char \<Rightarrow> nat" where
  "digitVal c = of_char c - 48"

definition decimalValue :: "string \<Rightarrow> nat" where
  "decimalValue s = foldl (\<lambda>n c. 10 * n + digitVal c) 0 s"

text \<open>\<open>s.replace(/,/g, '.')\<close>\<close>

definition replaceCommas :: "string \<Rightarrow> string" where
  "replaceCommas s = map (\<lambda>c. if c = CHR '','' then CHR ''.'' else c) s"

definition stripPrefix :: "string \<Rightarrow> string \<Rightarrow> string option" where
  "stripPrefix p s = (if take (length p) s = p then Some (drop (length p) s) else None)"

subsection \<open>parseFloat\<close>

text \<open>
  The built-in \<open>parseFloat\<close>: leading white space is skipped, then the longest prefix that
  is a decimal literal (sign, \<open>Infinity\<close> or digits with an optional fraction and an
  optional exponent) is read; with no such prefix the result is \<open>NaN\<close>. An exponent
  mark that no digit follows is not part of the literal.
\<close>

definition parseExponent :: "string \<Rightarrow> int" where
  "parseExponent s =
     (case s of
        [] \<Rightarrow> 0
      | c # r \<Rightarrow>
          if c = CHR ''e'' \<or> c = CHR ''E'' then
            (case r of
               [] \<Rightarrow> 0
             | d # r' \<Rightarrow>
                 if d = CHR ''-'' then - int (decimalValue (takeWhile isDigit r'))
                 else if d = CHR ''+'' then int (decimalValue (takeWhile isDigit r'))
                 else int (decimalValue (takeWhile isDigit r)))
          else 0)"

definition scale10 :: "real \<Rightarrow> int \<Rightarrow> real" where
  "scale10 m e = (if 0 \<le> e then m * 10 ^ nat e else m / 10 ^ nat (- e))"

definition parseUnsigned :: "string \<Rightarrow> jsnum" where
  "parseUnsigned s =
     (if stripPrefix ''Infinity'' s \<noteq> None then PInf
      else
        let ip = takeWhile isDigit s;
            r1 = dropWhile isDigit s;
            fp = (case r1 of [] \<Rightarrow> [] | c # r \<Rightarrow> if c = CHR ''.'' then takeWhile isDigit r else []);
            r2 = (case r1 of [] \<Rightarrow> [] | c # r \<Rightarrow> if c = CHR ''.'' then dropWhile isDigit r else r1)
        in if ip = [] \<and> fp = [] then NaN
           else Fin (scale10 (real (decimalValue (ip @ fp))) (parseExponent r2 - int (length fp))))"

definition parseFloat :: "string \<Rightarrow> jsnum" where
  "parseFloat s =
     (case dropWhile isWhiteSpace s of
        [] \<Rightarrow> NaN
      | c # r \<Rightarrow>
          if c = CHR ''-'' then jsneg (parseUnsigned r)
          else if c = CHR ''+'' then parseUnsigned r
          else parseUnsigned (c # r))"


section \<open>Helpers of useDietData\<close>

text \<open>
  \<^verbatim>\<open>cleanString\<close>: the empty string for a falsy value, else the trimmed, lower-cased text.
\<close>

definition cleanString :: "(jsnum \<Rightarrow> string) \<Rightarrow> jsval \<Rightarrow> string" where
  "cleanString numStr str =
     (if falsy str then [] else toLowerCase (trim (jsToString numStr str)))"

text \<open>
  \<^verbatim>\<open>safeParseFloat\<close>: a number is returned as it is; a falsy value gives 0; anything else
  is turned into text, trimmed, its commas replaced by dots, parsed, and \<open>|| 0\<close> turns
  \<open>NaN\<close> into 0.
\<close>

definition safeParseFloat :: "(jsnum \<Rightarrow> string) \<Rightarrow> jsval \<Rightarrow> jsnum" where
  "safeParseFloat numStr v =
     (case v of
        JNum n \<Rightarrow> n
      | _ \<Rightarrow>
          if falsy v then Fin 0
          else orZero (parseFloat (replaceCommas (trim (jsToString numStr v)))))"


section \<open>Objects used as dictionaries\<close>

text \<open>
  An object is its list of own properties in creation order. \<open>Object.keys\<close> and
  \<open>Object.entries\<close> list the keys that are array indices first, in ascending numeric
  order, and then the other keys in creation order.
\<close>

type_synonym 'v obj = "(string \<times> 'v) list"

definition isArrayIndex :: "string \<Rightarrow> bool" where
  "isArrayIndex k =
     (k \<noteq> [] \<and> list_all isDigit k \<and> (k = ''0'' \<or> hd k \<noteq> CHR ''0'')
      \<and> decimalValue k < 2 ^ 32 - 1)"

definition objEntries :: "'v obj \<Rightarrow> 'v obj" where
  "objEntries m =
     sort_key (\<lambda>e. decimalValue (fst e)) (filter (\<lambda>e. isArrayIndex (fst e)) m)
     @ filter (\<lambda>e. \<not> isArrayIndex (fst e)) m"

definition objKeys :: "'v obj \<Rightarrow> string list" where
  "objKeys m = map fst (objEntries m)"

text \<open>
  \<^verbatim>\<open>if (!m[k]) m[k] = v0\<close>, where every stored value is an object. The keys used below
  are standard labels, none of which is a name that an object inherits, so that \<open>m[k]\<close>
  is the own property or nothing.
\<close>

definition objInit :: "'v obj \<Rightarrow> string \<Rightarrow> 'v \<Rightarrow> 'v obj" where
  "objInit m k v0 = (case map_of m k of None \<Rightarrow> m @ [(k, v0)] | Some _ \<Rightarrow> m)"

text \<open>In-place change of the value stored under \<open>k\<close>.\<close>

definition objUpd :: "'v obj \<Rightarrow> string \<Rightarrow> ('v \<Rightarrow> 'v) \<Rightarrow> 'v obj" where
  "objUpd m k f = map (\<lambda>e. if fst e = k then (fst e, f (snd e)) else e) m"

text \<open>
  Reading a property of an object literal also finds what the literal inherits from
  \<open>Object.prototype\<close>. The table gives, for each inherited name, the text of the inherited
  value when it is used as a property key or label: for a built-in function the text
  that V8 prints (other engines differ in white space), for \<open>__proto__\<close> the text of the
  prototype object.
\<close>

definition objectPrototype :: "(string \<times> string) list" where
  "objectPrototype =
     [(''constructor'', ''function Object() { [native code] }''),
      (''__proto__'', ''[object Object]''),
      (''toString'', ''function toString() { [native code] }''),
      (''toLocaleString'', ''function toLocaleString() { [native code] }''),
      (''valueOf'', ''function valueOf() { [native code] }''),
      (''hasOwnProperty'', ''function hasOwnProperty() { [native code] }''),
      (''isPrototypeOf'', ''function isPrototypeOf() { [native code] }''),
      (''propertyIsEnumerable'', ''function propertyIsEnumerable() { [native code] }''),
      (''__defineGetter__'', ''function __defineGetter__() { [native code] }''),
      (''__defineSetter__'', ''function __defineSetter__() { [native code] }''),
      (''__lookupGetter__'', ''function __lookupGetter__() { [native code] }''),
      (''__lookupSetter__'', ''function __lookupSetter__() { [native code] }'')]"

definition mappingGet :: "(string \<times> string) list \<Rightarrow> string \<Rightarrow> string option" where
  "mappingGet tbl k =
     (case map_of tbl k of Some v \<Rightarrow> Some v | None \<Rightarrow> map_of objectPrototype k)"


section \<open>Category tables\<close>

definition dietGroupMapping :: "(string \<times> string) list" where
  "dietGroupMapping =
     [(''vegan'', ''vegan''),
      (''veggie'', ''vegetarian''),
      (''fish'', ''fish''),
      (''meat'', ''low_meat''),
      (''meat50'', ''medium_meat''),
      (''meat100'', ''high_meat'')]"

definition genderMapping :: "(string \<times> string) list" where
  "genderMapping = [(''female'', ''Female''), (''male'', ''Male'')]"

definition ageGroupMapping :: "(string \<times> string) list" where
  "ageGroupMapping =
     [(''20-29'', ''20-29''),
      (''30-39'', ''30-39''),
      (''40-49'', ''40-49''),
      (''50-59'', ''50-59''),
      (''60-69'', ''60-69''),
      (''70-79'', ''70-79'')]"

text \<open>\<^verbatim>\<open>dietGroupMapping[dietGroup] || dietGroup\<close>\<close>

definition standardDietGroup :: "string \<Rightarrow> string" where
  "standardDietGroup dietGroup =
     (case mappingGet dietGroupMapping dietGroup of Some v \<Rightarrow> v | None \<Rightarrow> dietGroup)"

text \<open>\<^verbatim>\<open>gender ? (genderMapping[gender] || 'Unknown') : 'Unknown'\<close>\<close>

definition standardGender :: "string \<Rightarrow> string" where
  "standardGender gender =
     (if gender \<noteq> [] then
        (case mappingGet genderMapping gender of Some v \<Rightarrow> v | None \<Rightarrow> ''Unknown'')
      else ''Unknown'')"

definition standardAgeGroup :: "string \<Rightarrow> string" where
  "standardAgeGroup ageGroup =
     (if ageGroup \<noteq> [] then
        (case mappingGet ageGroupMapping ageGroup of Some v \<Rightarrow> v | None \<Rightarrow> ''Unknown'')
      else ''Unknown'')"


section \<open>Column reconciliation\<close>

type_synonym row = "jsval obj"

definition columnMap :: "(string \<times> string list) list" where
  "columnMap =
     [(''dietGroup'', [''diet_group'', ''dietgroup'', ''diet'']),
      (''gender'', [''sex'', ''gender'']),
      (''ageGroup'', [''age_group'', ''agegroup'', ''age'']),
      (''ghgs'', [''mean_ghgs'', ''ghgs'', ''greenhouse_gas'']),
      (''landUse'', [''mean_land'', ''land'', ''land_use'']),
      (''waterScarcity'', [''mean_watscar'', ''water'', ''water_scarcity'']),
      (''eutrophication'', [''mean_eut'', ''eutrophication'']),
      (''acidification'', [''mean_acid'', ''acidification'']),
      (''mean_bio'', [''mean_bio'', ''biodiversity'', ''bio''])]"

text \<open>
  \<^verbatim>\<open>availableColumns.find(column => possibleNames.includes(column.toLowerCase().trim()))\<close>,
  stored only when the header found is truthy.
\<close>

definition findColumn :: "string list \<Rightarrow> string list \<Rightarrow> string option" where
  "findColumn availableColumns possibleNames =
     (case find (\<lambda>column. trim (toLowerCase column) \<in> set possibleNames) availableColumns of
        None \<Rightarrow> None
      | Some foundColumn \<Rightarrow> if foundColumn = [] then None else Some foundColumn)"

text \<open>
  \<^verbatim>\<open>actualColumns\<close>: filled from the keys of the first row only; empty when there is no row.
\<close>

definition actualColumns :: "row list \<Rightarrow> string \<Rightarrow> string option" where
  "actualColumns data targetField =
     (case data of
        [] \<Rightarrow> None
      | sampleRow # _ \<Rightarrow>
          (case map_of columnMap targetField of
             None \<Rightarrow> None
           | Some possibleNames \<Rightarrow> findColumn (objKeys sampleRow) possibleNames))"

text \<open>
  \<^verbatim>\<open>row[actualColumns.field]\<close>. For an unmapped field the key is \<open>undefined\<close>, which as a
  property key is the text \<open>undefined\<close>.
\<close>

definition rowGet :: "row \<Rightarrow> string option \<Rightarrow> jsval" where
  "rowGet r col =
     (case map_of r (case col of None \<Rightarrow> ''undefined'' | Some c \<Rightarrow> c) of
        None \<Rightarrow> JUndefined
      | Some v \<Rightarrow> v)"


section \<open>Aggregation\<close>

text \<open>
  The six indicators of a record. The accumulator of a bucket holds, for each indicator,
  the array of values pushed so far; a summary record holds one number for each.
\<close>

record 'a measures =
  ghgs :: 'a
  landUse :: 'a
  waterScarcity :: 'a
  eutrophication :: 'a
  acidification :: 'a
  mean_bio :: 'a

type_synonym bucket = "jsnum list measures"

record DietData = "jsnum measures" +
  dietGroup :: string
  gender :: string
  ageGroup :: string

definition emptyBucket :: bucket where
  "emptyBucket =
     \<lparr>ghgs = [], landUse = [], waterScarcity = [], eutrophication = [],
      acidification = [], mean_bio = []\<rparr>"

text \<open>\<^verbatim>\<open>if (!isNaN(x)) arr.push(x)\<close>\<close>

definition pushNumber :: "jsnum \<Rightarrow> jsnum list \<Rightarrow> jsnum list" where
  "pushNumber x arr = (if x \<noteq> NaN then arr @ [x] else arr)"

definition pushValues :: "jsnum measures \<Rightarrow> bucket \<Rightarrow> bucket" where
  "pushValues v b =
     \<lparr>ghgs = pushNumber (ghgs v) (ghgs b),
      landUse = pushNumber (landUse v) (landUse b),
      waterScarcity = pushNumber (waterScarcity v) (waterScarcity b),
      eutrophication = pushNumber (eutrophication v) (eutrophication b),
      acidification = pushNumber (acidification v) (acidification b),
      mean_bio = pushNumber (mean_bio v) (mean_bio b)\<rparr>"

text \<open>
  What one row contributes: its three standard labels and its six coerced numbers, or
  nothing when the cleaned diet-group label is empty (\<^verbatim>\<open>if (!dietGroup) return\<close>).
\<close>

record contribution =
  standardDiet :: string
  standardSex :: string
  standardAge :: string
  numbers :: "jsnum measures"

definition parseRow ::
  "(jsnum \<Rightarrow> string) \<Rightarrow> (string \<Rightarrow> string option) \<Rightarrow> row \<Rightarrow> contribution option" where
  "parseRow numStr cols r =
     (let dietGroup = cleanString numStr (rowGet r (cols ''dietGroup''));
          gender = cleanString numStr (rowGet r (cols ''gender''));
          ageGroup = cleanString numStr (rowGet r (cols ''ageGroup''))
      in if dietGroup = [] then None
         else Some
           \<lparr>standardDiet = standardDietGroup dietGroup,
            standardSex = standardGender gender,
            standardAge = standardAgeGroup ageGroup,
            numbers =
              \<lparr>ghgs = safeParseFloat numStr (rowGet r (cols ''ghgs'')),
               landUse = safeParseFloat numStr (rowGet r (cols ''landUse'')),
               waterScarcity = safeParseFloat numStr (rowGet r (cols ''waterScarcity'')),
               eutrophication = safeParseFloat numStr (rowGet r (cols ''eutrophication'')),
               acidification = safeParseFloat numStr (rowGet r (cols ''acidification'')),
               mean_bio = safeParseFloat numStr (rowGet r (cols ''mean_bio''))\<rparr>\<rparr>)"

text \<open>
  One-key bucket map: create the bucket on first sight of the key, then push the values.
  The source creates the buckets of all five maps, then parses the numbers, then pushes
  into all five; the maps do not depend on each other, so each is updated here in one go.
\<close>

definition addTo :: "bucket obj \<Rightarrow> string \<Rightarrow> jsnum measures \<Rightarrow> bucket obj" where
  "addTo m k v = objUpd (objInit m k emptyBucket) k (pushValues v)"

text \<open>Two-key bucket map: an object of objects.\<close>

definition addTo2 ::
  "bucket obj obj \<Rightarrow> string \<Rightarrow> string \<Rightarrow> jsnum measures \<Rightarrow> bucket obj obj" where
  "addTo2 m k1 k2 v = objUpd (objInit m k1 []) k1 (\<lambda>inner. addTo inner k2 v)"

record aggState =
  dietGroupsMap :: "bucket obj"
  genderGroupsMap :: "bucket obj"
  ageGroupsMap :: "bucket obj"
  dietGenderGroupsMap :: "bucket obj obj"
  dietAgeGroupsMap :: "bucket obj obj"

definition emptyState :: aggState where
  "emptyState =
     \<lparr>dietGroupsMap = [], genderGroupsMap = [], ageGroupsMap = [],
      dietGenderGroupsMap = [], dietAgeGroupsMap = []\<rparr>"

definition accumulate :: "aggState \<Rightarrow> contribution \<Rightarrow> aggState" where
  "accumulate st c =
     \<lparr>dietGroupsMap = addTo (dietGroupsMap st) (standardDiet c) (numbers c),
      genderGroupsMap = addTo (genderGroupsMap st) (standardSex c) (numbers c),
      ageGroupsMap = addTo (ageGroupsMap st) (standardAge c) (numbers c),
      dietGenderGroupsMap =
        addTo2 (dietGenderGroupsMap st) (standardDiet c) (standardSex c) (numbers c),
      dietAgeGroupsMap =
        addTo2 (dietAgeGroupsMap st) (standardDiet c) (standardAge c) (numbers c)\<rparr>"

text \<open>The body of \<^verbatim>\<open>data.forEach\<close>.\<close>

definition processRow ::
  "(jsnum \<Rightarrow> string) \<Rightarrow> (string \<Rightarrow> string option) \<Rightarrow> aggState \<Rightarrow> row \<Rightarrow> aggState" where
  "processRow numStr cols st r =
     (case parseRow numStr cols r of None \<Rightarrow> st | Some c \<Rightarrow> accumulate st c)"

text \<open>
  \<^verbatim>\<open>arr.length > 0 ? arr.reduce((sum, val) => sum + val, 0) / arr.length : 0\<close>
\<close>

definition average :: "jsnum list \<Rightarrow> jsnum" where
  "average arr =
     (if 0 < length arr then jsdiv (foldl jsadd (Fin 0) arr) (Fin (real (length arr)))
      else Fin 0)"

definition summary :: "string \<Rightarrow> string \<Rightarrow> string \<Rightarrow> bucket \<Rightarrow> DietData" where
  "summary d g a b =
     \<lparr>ghgs = average (ghgs b),
      landUse = average (landUse b),
      waterScarcity = average (waterScarcity b),
      eutrophication = average (eutrophication b),
      acidification = average (acidification b),
      mean_bio = average (mean_bio b),
      dietGroup = d, gender = g, ageGroup = a\<rparr>"

text \<open>
  The five loops that fill the array \<^verbatim>\<open>processedData\<close> of \<^verbatim>\<open>loadData\<close>, in the order of
  the source; \<open>summaryRecords\<close> is the array when they are done.
\<close>

definition dietRecords :: "aggState \<Rightarrow> DietData list" where
  "dietRecords st =
     map (\<lambda>e. summary (fst e) ''All'' ''All'' (snd e)) (objEntries (dietGroupsMap st))"

definition genderRecords :: "aggState \<Rightarrow> DietData list" where
  "genderRecords st =
     map (\<lambda>e. summary ''All'' (fst e) ''All'' (snd e)) (objEntries (genderGroupsMap st))"

definition ageRecords :: "aggState \<Rightarrow> DietData list" where
  "ageRecords st =
     map (\<lambda>e. summary ''All'' ''All'' (fst e) (snd e)) (objEntries (ageGroupsMap st))"

definition dietGenderRecords :: "aggState \<Rightarrow> DietData list" where
  "dietGenderRecords st =
     concat (map (\<lambda>p. map (\<lambda>e. summary (fst p) (fst e) ''All'' (snd e)) (objEntries (snd p)))
                 (objEntries (dietGenderGroupsMap st)))"

definition dietAgeRecords :: "aggState \<Rightarrow> DietData list" where
  "dietAgeRecords st =
     concat (map (\<lambda>p. map (\<lambda>e. summary (fst p) ''All'' (fst e) (snd e)) (objEntries (snd p)))
                 (objEntries (dietAgeGroupsMap st)))"

definition summaryRecords :: "aggState \<Rightarrow> DietData list" where
  "summaryRecords st =
     dietRecords st @ genderRecords st @ ageRecords st
     @ dietGenderRecords st @ dietAgeRecords st"

definition aggregate ::
  "(jsnum \<Rightarrow> string) \<Rightarrow> (string \<Rightarrow> string option) \<Rightarrow> row list \<Rightarrow> aggState" where
  "aggregate numStr cols data = foldl (processRow numStr cols) emptyState data"

text \<open>
  \<^verbatim>\<open>loadData\<close> after a successful fetch and parse: the value stored in \<^verbatim>\<open>dietData\<close>.
\<close>

definition loadData :: "(jsnum \<Rightarrow> string) \<Rightarrow> row list \<Rightarrow> DietData list" where
  "loadData numStr data = summaryRecords (aggregate numStr (actualColumns data) data)"

text \<open>
  The three computed label lists: the labels of \<^verbatim>\<open>dietData\<close> put into a \<open>Set\<close> one by
  one and read back with \<open>Array.from\<close>.
\<close>

definition setAdd :: "string list \<Rightarrow> string \<Rightarrow> string list" where
  "setAdd groups x = (if x \<in> set groups then groups else groups @ [x])"





section \<open>The 3D chart: DietStackedBar3D\<close>

record indicator =
  ind_value :: string
  ind_label :: string
  weight :: jsnum

definition indicators :: "indicator list" where
  "indicators =
     [\<lparr>ind_value = ''ghgs'', ind_label = ''Greenhouse Gas Emissions'', weight = Fin 1\<rparr>,
      \<lparr>ind_value = ''landUse'', ind_label = ''Land Use'', weight = Fin (5 / 10)\<rparr>,
      \<lparr>ind_value = ''waterScarcity'', ind_label = ''Water Scarcity'', weight = Fin (3 / 100)\<rparr>,
      \<lparr>ind_value = ''eutrophication'', ind_label = ''Eutrophication'', weight = Fin (2 / 10)\<rparr>,
      \<lparr>ind_value = ''acidification'', ind_label = ''Acidification'', weight = Fin (2 / 10)\<rparr>,
      \<lparr>ind_value = ''mean_bio'', ind_label = ''Biodiversity Impact'', weight = Fin (4 / 10)\<rparr>]"

text \<open>
  \<^verbatim>\<open>item[indicator.value] as number\<close>; a name that is no field reads \<open>undefined\<close>, which
  in arithmetic is \<open>NaN\<close>.
\<close>

definition indicatorValue :: "DietData \<Rightarrow> string \<Rightarrow> jsnum" where
  "indicatorValue item name =
     (if name = ''ghgs'' then ghgs item
      else if name = ''landUse'' then landUse item
      else if name = ''waterScarcity'' then waterScarcity item
      else if name = ''eutrophication'' then eutrophication item
      else if name = ''acidification'' then acidification item
      else if name = ''mean_bio'' then mean_bio item
      else NaN)"

definition dietGroupDisplayNames :: "(string \<times> string) list" where
  "dietGroupDisplayNames =
     [(''vegan'', ''Vegan''),
      (''vegetarian'', ''Vegetarian''),
      (''fish'', ''Fish-eater''),
      (''low_meat'', ''Low Meat''),
      (''medium_meat'', ''Medium Meat''),
      (''high_meat'', ''High Meat''),
      (''All'', ''All Diets'')]"

definition ageGroupDisplayNames :: "(string \<times> string) list" where
  "ageGroupDisplayNames =
     [(''20-29'', ''20-29 years''),
      (''30-39'', ''30-39 years''),
      (''40-49'', ''40-49 years''),
      (''50-59'', ''50-59 years''),
      (''60-69'', ''60-69 years''),
      (''70-79'', ''70-79 years''),
      (''Unknown'', ''Unknown age''),
      (''All'', ''All Ages'')]"

definition filteredData :: "DietData list \<Rightarrow> DietData list" where
  "filteredData dietData =
     (if length dietData = 0 then []
      else filter (\<lambda>item. dietGroup item \<noteq> ''All'' \<and> ageGroup item \<noteq> ''All''
                          \<and> gender item = ''All'') dietData)"

definition dietOrder :: "string list" where
  "dietOrder = [''vegan'', ''vegetarian'', ''fish'', ''low_meat'', ''medium_meat'', ''high_meat'']"

definition ageOrder :: "string list" where
  "ageOrder = [''20-29'', ''30-39'', ''40-49'', ''50-59'', ''60-69'', ''70-79'', ''Unknown'']"

fun indexOf :: "string list \<Rightarrow> string \<Rightarrow> int" where
  "indexOf [] x = - 1"
| "indexOf (y # ys) x = (if y = x then 0 else (let i = indexOf ys x in if i = - 1 then - 1 else i + 1))"

text \<open>The comparator given to \<open>sort\<close>.\<close>

definition orderCompare :: "string list \<Rightarrow> string \<Rightarrow> string \<Rightarrow> int" where
  "orderCompare order a b =
     (let indexA = indexOf order a; indexB = indexOf order b
      in if indexA = - 1 then 1 else if indexB = - 1 then - 1 else indexA - indexB)"

text \<open>
  \<open>Array.prototype.sort\<close> is the parameter \<open>srt\<close>: for two labels outside the reference
  order the comparator answers 1 both ways, and the order the host then produces is its
  own choice.
\<close>

type_synonym sorter = "(string \<Rightarrow> string \<Rightarrow> int) \<Rightarrow> string list \<Rightarrow> string list"

definition uniqueDietGroups :: "sorter \<Rightarrow> DietData list \<Rightarrow> string list" where
  "uniqueDietGroups srt fd = srt (orderCompare dietOrder) (foldl setAdd [] (map dietGroup fd))"

definition uniqueAgeGroups :: "sorter \<Rightarrow> DietData list \<Rightarrow> string list" where
  "uniqueAgeGroups srt fd = srt (orderCompare ageOrder) (foldl setAdd [] (map ageGroup fd))"

text \<open>\<open>Object.fromEntries(xs.map((x, index) => [x, index]))\<close>: a later entry wins.\<close>

definition indexMap :: "string list \<Rightarrow> string \<Rightarrow> nat option" where
  "indexMap xs = map_of (rev (zip xs [0..<length xs]))"

definition maxValues :: "DietData list \<Rightarrow> string \<Rightarrow> jsnum" where
  "maxValues fd name = mathMax (map (\<lambda>d. indicatorValue d name) fd)"

text \<open>
  \<^verbatim>\<open>combinedData\<close>: diet group, then age group, then indicator name. It is never
  enumerated, so a map stands for each object.
\<close>

type_synonym combined = "string \<rightharpoonup> (string \<rightharpoonup> (string \<rightharpoonup> jsnum))"

definition initCombined :: "string list \<Rightarrow> string list \<Rightarrow> combined" where
  "initCombined ds as =
     foldl (\<lambda>cd d. cd(d \<mapsto> foldl (\<lambda>inner a. inner(a \<mapsto> Map.empty)) Map.empty as)) Map.empty ds"

text \<open>\<^verbatim>\<open>(rawValue / maxValues[indicator.value]) * indicator.weight\<close>\<close>

definition normalize :: "DietData list \<Rightarrow> DietData \<Rightarrow> indicator \<Rightarrow> jsnum" where
  "normalize fd item ind =
     jsmul (jsdiv (indicatorValue item (ind_value ind)) (maxValues fd (ind_value ind))) (weight ind)"

text \<open>The inner loop over the indicators: one normalised value is stored for each.\<close>

definition fillCell :: "DietData list \<Rightarrow> DietData \<Rightarrow> (string \<rightharpoonup> jsnum) \<Rightarrow> (string \<rightharpoonup> jsnum)" where
  "fillCell fd item cell =
     foldl (\<lambda>c ind. c(ind_value ind \<mapsto> normalize fd item ind)) cell indicators"

text \<open>
  The body of the loop over \<^verbatim>\<open>filteredData\<close>; an item whose diet group or age group has
  no entry is skipped (\<^verbatim>\<open>continue\<close>).
\<close>

definition fillItem :: "DietData list \<Rightarrow> combined \<Rightarrow> DietData \<Rightarrow> combined" where
  "fillItem fd cd item =
     (case cd (dietGroup item) of
        None \<Rightarrow> cd
      | Some inner \<Rightarrow>
          (case inner (ageGroup item) of
             None \<Rightarrow> cd
           | Some cell \<Rightarrow>
               cd(dietGroup item \<mapsto> inner(ageGroup item \<mapsto> fillCell fd item cell))))"

definition combinedData :: "sorter \<Rightarrow> DietData list \<Rightarrow> combined" where
  "combinedData srt fd =
     foldl (fillItem fd) (initCombined (uniqueDietGroups srt fd) (uniqueAgeGroups srt fd)) fd"

text \<open>A data point \<^verbatim>\<open>[xIndex, yIndex, normalizedValue, indicator.value, rawValue]\<close>.\<close>

record point =
  xIndex :: "nat option"
  yIndex :: "nat option"
  normalizedValue :: jsnum
  indicatorName :: string
  rawValue :: jsnum

text \<open>\<^verbatim>\<open>combinedData[dietGroup]?.[ageGroup]?.[indicator.value] || 0\<close>\<close>

definition lookupNormalized :: "combined \<Rightarrow> string \<Rightarrow> string \<Rightarrow> string \<Rightarrow> jsnum" where
  "lookupNormalized cd d a name =
     (case cd d of
        None \<Rightarrow> Fin 0
      | Some inner \<Rightarrow>
          (case inner a of
             None \<Rightarrow> Fin 0
           | Some cell \<Rightarrow> (case cell name of None \<Rightarrow> Fin 0 | Some x \<Rightarrow> orZero x)))"

definition lookupRaw :: "DietData list \<Rightarrow> string \<Rightarrow> string \<Rightarrow> string \<Rightarrow> jsnum" where
  "lookupRaw fd d a name =
     (case find (\<lambda>item. dietGroup item = d \<and> ageGroup item = a) fd of
        Some item \<Rightarrow> indicatorValue item name
      | None \<Rightarrow> Fin 0)"

definition seriesPoints :: "sorter \<Rightarrow> DietData list \<Rightarrow> indicator \<Rightarrow> point list" where
  "seriesPoints srt fd ind =
     concat (map (\<lambda>d.
       map (\<lambda>a.
         \<lparr>xIndex = indexMap (uniqueDietGroups srt fd) d,
          yIndex = indexMap (uniqueAgeGroups srt fd) a,
          normalizedValue = lookupNormalized (combinedData srt fd) d a (ind_value ind),
          indicatorName = ind_value ind,
          rawValue = lookupRaw fd d a (ind_value ind)\<rparr>)
         (uniqueAgeGroups srt fd))
       (uniqueDietGroups srt fd))"

record series =
  series_name :: string
  series_data :: "point list"

record chart =
  chartDietGroups :: "string list"
  chartAgeGroups :: "string list"
  seriesData :: "series list"

definition displayName :: "(string \<times> string) list \<Rightarrow> string \<Rightarrow> string" where
  "displayName tbl x = (case mappingGet tbl x of Some v \<Rightarrow> v | None \<Rightarrow> x)"

text \<open>The computed \<^verbatim>\<open>processedData\<close> of the component, from the value of \<^verbatim>\<open>dietData\<close>.\<close>

definition processedData :: "sorter \<Rightarrow> DietData list \<Rightarrow> chart" where
  "processedData srt dietData =
     (let fd = filteredData dietData
      in if length fd = 0 then
           \<lparr>chartDietGroups = [], chartAgeGroups = [], seriesData = []\<rparr>
         else
           \<lparr>chartDietGroups = map (displayName dietGroupDisplayNames) (uniqueDietGroups srt fd),
            chartAgeGroups = map (displayName ageGroupDisplayNames) (uniqueAgeGroups srt fd),
            seriesData =
              map (\<lambda>ind. \<lparr>series_name = ind_label ind, series_data = seriesPoints srt fd ind\<rparr>)
                  indicators\<rparr>)"



section \<open>Notions of the specification\<close>



text \<open>
  The canonical records of an input: what the rows that are kept contribute, in input
  order.
\<close>

definition contributions ::
  "(jsnum \<Rightarrow> string) \<Rightarrow> (string \<Rightarrow> string option) \<Rightarrow> row list \<Rightarrow> contribution list" where
  "contributions numStr cols data = List.map_filter (parseRow numStr cols) data"

text \<open>The distinct elements of a list in the order in which each is first met.\<close>

fun firstSeen :: "'a list \<Rightarrow> 'a list" where
  "firstSeen [] = []"
| "firstSeen (x # xs) = x # firstSeen (removeAll x xs)"


section \<open>Example inputs\<close>




definition row3a :: row where
  "row3a = [(''diet_group'', JStr ''vegan''), (''sex'', JStr ''female'')]"

definition row3b :: row where
  "row3b = [(''diet_group'', JStr ''fish''), (''sex'', JStr ''female'')]"

definition row3c :: row where
  "row3c = [(''diet_group'', JStr ''vegan''), (''sex'', JStr ''male'')]"

definition data3 :: "row list" where
  "data3 = [row3a, row3b, row3c]"

text \<open>
  Diet groups coded as numbers, and the text of the two numbers used
  (\<open>Number.prototype.toString\<close> prints them in decimal).
\<close>

definition numStr3 :: "jsnum \<Rightarrow> string" where
  "numStr3 n = (if n = Fin 10 then ''10'' else if n = Fin 9 then ''9'' else [])"

definition data3n :: "row list" where
  "data3n = [[(''diet_group'', JNum (Fin 10))], [(''diet_group'', JNum (Fin 9))]]"

text \<open>A bucket with the indicator values 10, missing, 20.\<close>

definition data1 :: "row list" where
  "data1 =
     [[(''diet_group'', JStr ''vegan''), (''mean_ghgs'', JNum (Fin 10))],
      [(''diet_group'', JStr ''vegan''), (''mean_ghgs'', JNull)],
      [(''diet_group'', JStr ''vegan''), (''mean_ghgs'', JNum (Fin 20))]]"

text \<open>Category codes that are names every object inherits.\<close>

definition data6 :: "row list" where
  "data6 =
     [[(''diet_group'', JStr ''Veggie ''), (''sex'', JStr ''constructor''),
       (''age_group'', JStr ''20-29'')],
      [(''diet_group'', JStr ''constructor''), (''sex'', JStr ''other''),
       (''age_group'', JStr ''__proto__'')]]"

text \<open>A table whose diet-group column has no accepted name and which has a column \<open>undefined\<close>.\<close>

definition data9 :: "row list" where
  "data9 =
     [[(''undefined'', JStr ''vegan''), (''regime'', JStr ''fish''), (''sex'', JStr ''female'')]]"

text \<open>
  A stable insertion sort by a comparator: one behaviour \<open>Array.prototype.sort\<close> may have,
  used to instantiate the sorter in the examples.
\<close>

fun insertBy :: "(string \<Rightarrow> string \<Rightarrow> int) \<Rightarrow> string \<Rightarrow> string list \<Rightarrow> string list" where
  "insertBy cmp x [] = [x]"
| "insertBy cmp x (y # ys) = (if cmp x y \<le> 0 then x # y # ys else y # insertBy cmp x ys)"

definition insertionSort :: sorter where
  "insertionSort cmp xs = foldr (insertBy cmp) xs []"

text \<open>
  Summary records for the chart: two diet-by-age buckets and one diet-only record, with
  greenhouse-gas means 2 and 4 and no land use at all.
\<close>

definition chartItem :: "string \<Rightarrow> string \<Rightarrow> string \<Rightarrow> real \<Rightarrow> DietData" where
  "chartItem d g a x =
     \<lparr>ghgs = Fin x, landUse = Fin 0, waterScarcity = Fin 1, eutrophication = Fin 1,
      acidification = Fin 1, mean_bio = Fin 1, dietGroup = d, gender = g, ageGroup = a\<rparr>"

definition chart4 :: "DietData list" where
  "chart4 =
     [chartItem ''fish'' ''All'' ''All'' 3,
      chartItem ''fish'' ''All'' ''30-39'' 4,
      chartItem ''vegan'' ''All'' ''20-29'' 2]"

text \<open>Two rows with the land-use cells 0 and -3, in different diet-by-age buckets.\<close>

definition dataNeg :: "row list" where
  "dataNeg =
     [[(''diet_group'', JStr ''fish''), (''age_group'', JStr ''30-39''),
       (''mean_land'', JNum (Fin 0))],
      [(''diet_group'', JStr ''vegan''), (''age_group'', JStr ''20-29''),
       (''mean_land'', JNum (Fin (- 3)))]]"

section \<open>Properties of the helpers\<close>

lemma lowerChar_not_upper: "lowerChar c \<notin> set ''ABCDEFGHIJKLMNOPQRSTUVWXYZ''"
  by (simp add: lowerChar_def)

lemma toLowerCase_no_upper:
  "c \<in> set (toLowerCase s) \<Longrightarrow> c \<notin> set ''ABCDEFGHIJKLMNOPQRSTUVWXYZ''"
  using lowerChar_not_upper by (auto simp: toLowerCase_def)

lemma cleanString_no_upper:
  "c \<in> set (cleanString numStr v) \<Longrightarrow> c \<notin> set ''ABCDEFGHIJKLMNOPQRSTUVWXYZ''"
  using toLowerCase_no_upper by (auto simp: cleanString_def split: if_splits)

lemma parseFloat_Nil: "parseFloat [] = NaN"
  by (simp add: parseFloat_def)

lemma trim_Nil: "trim [] = []"
  by (simp add: trim_def)

lemmas parseFloat_defs =
  parseFloat_def parseUnsigned_def parseExponent_def scale10_def decimalValue_def
  digitVal_def isDigit_def isWhiteSpace_def stripPrefix_def jsneg_def replaceCommas_def
  trim_def Let_def

lemma safeParseFloat_not_NaN: "(\<And>n. v \<noteq> JNum n) \<Longrightarrow> safeParseFloat numStr v \<noteq> NaN"
  by (cases v) (auto simp: safeParseFloat_def orZero_def)

text \<open>
  C7. Numeric coercion: a number is returned unchanged; a string is trimmed, its commas
  are replaced by dots and the result is parsed, an unparseable or empty result giving 0;
  \<open>null\<close>, \<open>undefined\<close> and booleans give 0. In particular \<open>"2,5"\<close> gives 2.5.
\<close>

theorem safeParseFloat_coercion:
  "safeParseFloat numStr (JNum n) = n
   \<and> safeParseFloat numStr (JStr s) =
       (if parseFloat (replaceCommas (trim s)) = NaN then Fin 0
        else parseFloat (replaceCommas (trim s)))
   \<and> safeParseFloat numStr (JStr ''2,5'') = Fin (5 / 2)
   \<and> safeParseFloat numStr (JStr []) = Fin 0
   \<and> safeParseFloat numStr JNull = Fin 0
   \<and> safeParseFloat numStr JUndefined = Fin 0
   \<and> safeParseFloat numStr (JBool b) = Fin 0"
proof -
  have "safeParseFloat numStr (JStr s) =
       (if parseFloat (replaceCommas (trim s)) = NaN then Fin 0
        else parseFloat (replaceCommas (trim s)))"
    by (cases "s = []")
       (auto simp: safeParseFloat_def falsy_def jsToString_def orZero_def trim_Nil
                   replaceCommas_def parseFloat_Nil)
  moreover have "safeParseFloat numStr (JStr ''2,5'') = Fin (5 / 2)"
    by (simp add: safeParseFloat_def falsy_def jsToString_def orZero_def parseFloat_defs)
  moreover have "safeParseFloat numStr (JBool b) = Fin 0"
    by (cases b) (simp_all add: safeParseFloat_def falsy_def jsToString_def orZero_def
        parseFloat_defs)
  ultimately show ?thesis
    by (simp add: safeParseFloat_def falsy_def)
qed

theorem safeParseFloat_coercion_witness:
  "safeParseFloat (\<lambda>n. []) (JStr '' 12,50 kg'') = Fin (25 / 2)
   \<and> safeParseFloat (\<lambda>n. []) (JStr ''n/a'') = Fin 0"
  using safeParseFloat_coercion [of "\<lambda>n. []" "Fin 0" "'' 12,50 kg''" True]
        safeParseFloat_coercion [of "\<lambda>n. []" "Fin 0" "''n/a''" True]
  by (simp add: parseFloat_defs)


section \<open>Rows without a diet-group label\<close>








section \<open>Keys of the bucket maps\<close>

lemma set_firstSeen [simp]: "set (firstSeen xs) = set xs"
  by (induction xs rule: firstSeen.induct) auto

lemma firstSeen_snoc:
  "firstSeen (xs @ [x]) = (if x \<in> set xs then firstSeen xs else firstSeen xs @ [x])"
  by (induction xs rule: firstSeen.induct) auto

lemma distinct_firstSeen [simp]: "distinct (firstSeen xs)"
  by (induction xs rule: firstSeen.induct) auto


lemma map_fst_objInit:
  "map fst (objInit m k v0) = setAdd (map fst m) k"
proof (cases "map_of m k")
  case None
  then have "k \<notin> fst ` set m" by (simp add: map_of_eq_None_iff)
  with None show ?thesis by (simp add: objInit_def setAdd_def)
next
  case (Some a)
  then have "k \<in> fst ` set m" by (metis map_of_eq_None_iff option.distinct(1))
  with Some show ?thesis by (simp add: objInit_def setAdd_def)
qed

lemma map_fst_objUpd [simp]: "map fst (objUpd m k f) = map fst m"
  by (induction m) (auto simp: objUpd_def)

lemma map_fst_addTo: "map fst (addTo m k v) = setAdd (map fst m) k"
  by (simp add: addTo_def map_fst_objInit)

lemma set_objEntries [simp]: "set (objEntries m) = set m"
  by (auto simp: objEntries_def)

lemma objEntries_plain:
  "\<forall>k \<in> set (map fst m). \<not> isArrayIndex k \<Longrightarrow> objEntries m = m"
  by (simp add: objEntries_def filter_empty_conv)

lemma foldl_processRow_contributions:
  "foldl (processRow numStr cols) st data = foldl accumulate st (contributions numStr cols data)"
  by (induction data arbitrary: st)
     (auto simp: contributions_def processRow_def split: option.splits)

lemma dietGroupsMap_foldl:
  "dietGroupsMap (foldl accumulate st cs)
     = foldl (\<lambda>m c. addTo m (standardDiet c) (numbers c)) (dietGroupsMap st) cs"
  by (induction cs arbitrary: st) (simp_all add: accumulate_def)

lemma genderGroupsMap_foldl:
  "genderGroupsMap (foldl accumulate st cs)
     = foldl (\<lambda>m c. addTo m (standardSex c) (numbers c)) (genderGroupsMap st) cs"
  by (induction cs arbitrary: st) (simp_all add: accumulate_def)

lemma ageGroupsMap_foldl:
  "ageGroupsMap (foldl accumulate st cs)
     = foldl (\<lambda>m c. addTo m (standardAge c) (numbers c)) (ageGroupsMap st) cs"
  by (induction cs arbitrary: st) (simp_all add: accumulate_def)

lemma dietGenderGroupsMap_foldl:
  "dietGenderGroupsMap (foldl accumulate st cs)
     = foldl (\<lambda>m c. addTo2 m (standardDiet c) (standardSex c) (numbers c)) (dietGenderGroupsMap st) cs"
  by (induction cs arbitrary: st) (simp_all add: accumulate_def)

lemma dietAgeGroupsMap_foldl:
  "dietAgeGroupsMap (foldl accumulate st cs)
     = foldl (\<lambda>m c. addTo2 m (standardDiet c) (standardAge c) (numbers c)) (dietAgeGroupsMap st) cs"
  by (induction cs arbitrary: st) (simp_all add: accumulate_def)

lemma keys_foldl_addTo:
  "map fst (foldl (\<lambda>m c. addTo m (key c) (val c)) [] cs) = firstSeen (map key cs)"
  by (induction cs rule: rev_induct) (simp_all add: map_fst_addTo setAdd_def firstSeen_snoc)


lemma setAdd_firstSeen: "setAdd (firstSeen xs) x = firstSeen (xs @ [x])"
  by (simp add: setAdd_def firstSeen_snoc)

lemma objUpd_absent: "k \<notin> fst ` set m \<Longrightarrow> objUpd m k f = m"
  by (induction m) (auto simp: objUpd_def)

lemma objUpd_append: "objUpd (m @ n) k f = objUpd m k f @ objUpd n k f"
  by (simp add: objUpd_def)

lemma objInit_present: "k \<in> fst ` set m \<Longrightarrow> objInit m k v0 = m"
  by (cases "map_of m k") (auto simp: objInit_def map_of_eq_None_iff)

lemma objInit_absent: "k \<notin> fst ` set m \<Longrightarrow> objInit m k v0 = m @ [(k, v0)]"
proof -
  assume "k \<notin> fst ` set m"
  then have "map_of m k = None" by (simp add: map_of_eq_None_iff)
  then show ?thesis by (simp add: objInit_def)
qed

lemma keys2_addTo2:
  "map (\<lambda>p. (fst p, map fst (snd p))) (addTo2 m d g v) =
     (if d \<in> fst ` set m
      then map (\<lambda>q. if fst q = d then (d, setAdd (snd q) g) else q)
               (map (\<lambda>p. (fst p, map fst (snd p))) m)
      else map (\<lambda>p. (fst p, map fst (snd p))) m @ [(d, [g])])"
proof (cases "d \<in> fst ` set m")
  case True
  then have "addTo2 m d g v = objUpd m d (\<lambda>inner. addTo inner g v)"
    by (simp add: addTo2_def objInit_present)
  then show ?thesis using True
    by (simp add: objUpd_def map_fst_addTo comp_def)
next
  case False
  then have "addTo2 m d g v = m @ [(d, addTo [] g v)]"
    by (simp add: addTo2_def objInit_absent objUpd_append objUpd_absent) (simp add: objUpd_def)
  then show ?thesis using False
    by (simp add: map_fst_addTo setAdd_def)
qed

lemma keys2_foldl_addTo2:
  "map (\<lambda>p. (fst p, map fst (snd p))) (foldl (\<lambda>m c. addTo2 m (k1 c) (k2 c) (val c)) [] cs)
     = map (\<lambda>d. (d, firstSeen (map k2 (filter (\<lambda>c. k1 c = d) cs)))) (firstSeen (map k1 cs))"
proof (induction cs rule: rev_induct)
  case Nil
  then show ?case by simp
next
  case (snoc c cs)
  let ?K = "\<lambda>p. (fst p, map fst (snd p))"
  let ?M = "foldl (\<lambda>m c. addTo2 m (k1 c) (k2 c) (val c)) [] cs"
  let ?F = "\<lambda>cs d. firstSeen (map k2 (filter (\<lambda>c. k1 c = d) cs))"
  let ?L = "firstSeen (map k1 cs)"
  have keys: "fst ` set ?M = k1 ` set cs"
  proof -
    have "map fst (map ?K ?M) = ?L" by (simp add: snoc.IH comp_def)
    then have "set (map fst ?M) = set ?L" by (simp add: comp_def)
    then show ?thesis by simp
  qed
  show ?case
  proof (cases "k1 c \<in> k1 ` set cs")
    case True
    have "map ?K (addTo2 ?M (k1 c) (k2 c) (val c))
        = map (\<lambda>q. if fst q = k1 c then (k1 c, setAdd (snd q) (k2 c)) else q) (map ?K ?M)"
      using True keys by (simp add: keys2_addTo2)
    also have "\<dots> = map (\<lambda>d. (d, ?F (cs @ [c]) d)) ?L"
      by (simp add: snoc.IH comp_def setAdd_firstSeen)
    finally show ?thesis using True by (simp add: firstSeen_snoc)
  next
    case False
    then have empty: "filter (\<lambda>x. k1 x = k1 c) cs = []"
      by (auto simp: filter_empty_conv image_iff)
    have "map ?K (addTo2 ?M (k1 c) (k2 c) (val c)) = map ?K ?M @ [(k1 c, [k2 c])]"
      using False keys by (simp add: keys2_addTo2)
    also have "map ?K ?M = map (\<lambda>d. (d, ?F (cs @ [c]) d)) ?L"
      using False by (auto simp: snoc.IH)
    finally show ?thesis using False by (simp add: firstSeen_snoc empty)
  qed
qed


section \<open>Labels of the canonical records\<close>

lemma mappingGet_range:
  "mappingGet tbl k = Some v \<Longrightarrow> v \<in> set (map snd tbl @ map snd objectPrototype)"
  by (auto simp: mappingGet_def split: option.splits dest!: map_of_SomeD intro: rev_image_eqI)

lemma standardGender_range:
  "standardGender g \<in> set (''Unknown'' # map snd genderMapping @ map snd objectPrototype)"
  using mappingGet_range [of genderMapping g]
  by (auto simp: standardGender_def split: option.splits)

lemma standardAgeGroup_range:
  "standardAgeGroup a \<in> set (''Unknown'' # map snd ageGroupMapping @ map snd objectPrototype)"
  using mappingGet_range [of ageGroupMapping a]
  by (auto simp: standardAgeGroup_def split: option.splits)

lemma standardDietGroup_range:
  "standardDietGroup d \<in> set (d # map snd dietGroupMapping @ map snd objectPrototype)"
  using mappingGet_range [of dietGroupMapping d]
  by (auto simp: standardDietGroup_def split: option.splits)

lemma gender_labels_plain:
  "\<forall>s \<in> set (''Unknown'' # map snd genderMapping @ map snd objectPrototype).
      s \<noteq> ''All'' \<and> \<not> isArrayIndex s"
  by (simp add: genderMapping_def objectPrototype_def isArrayIndex_def isDigit_def)

lemma age_labels_plain:
  "\<forall>s \<in> set (''Unknown'' # map snd ageGroupMapping @ map snd objectPrototype).
      s \<noteq> ''All'' \<and> \<not> isArrayIndex s"
  by (simp add: ageGroupMapping_def objectPrototype_def isArrayIndex_def isDigit_def)

lemma diet_labels_not_All:
  "\<forall>s \<in> set (map snd dietGroupMapping @ map snd objectPrototype). s \<noteq> ''All''"
  by (simp add: dietGroupMapping_def objectPrototype_def)

lemma standardGender_plain: "standardGender g \<noteq> ''All'' \<and> \<not> isArrayIndex (standardGender g)"
  using standardGender_range gender_labels_plain by blast

lemma standardAgeGroup_plain:
  "standardAgeGroup a \<noteq> ''All'' \<and> \<not> isArrayIndex (standardAgeGroup a)"
  using standardAgeGroup_range age_labels_plain by blast

lemma standardDietGroup_not_All:
  "standardDietGroup (cleanString numStr v) \<noteq> ''All''"
proof -
  have "cleanString numStr v \<noteq> ''All''"
    using cleanString_no_upper [of "CHR ''A''" numStr v] by auto
  then show ?thesis
    using standardDietGroup_range [of "cleanString numStr v"] diet_labels_not_All by auto
qed

lemma set_contributions:
  "set (contributions numStr cols data) = {c. \<exists>r \<in> set data. parseRow numStr cols r = Some c}"
  unfolding contributions_def
  by (induction data) (auto split: option.splits)

lemma contribution_labels:
  assumes "c \<in> set (contributions numStr cols data)"
  shows "standardDiet c \<noteq> ''All''" "standardSex c \<noteq> ''All''" "standardAge c \<noteq> ''All''"
        "\<not> isArrayIndex (standardSex c)" "\<not> isArrayIndex (standardAge c)"
proof -
  from assms obtain r where "parseRow numStr cols r = Some c"
    by (auto simp: set_contributions)
  then have c: "standardDiet c = standardDietGroup (cleanString numStr (rowGet r (cols ''dietGroup'')))"
       "standardSex c = standardGender (cleanString numStr (rowGet r (cols ''gender'')))"
       "standardAge c = standardAgeGroup (cleanString numStr (rowGet r (cols ''ageGroup'')))"
    by (auto simp: parseRow_def Let_def split: if_splits)
  show "standardDiet c \<noteq> ''All''" by (simp add: c standardDietGroup_not_All)
  show "standardSex c \<noteq> ''All''" by (simp add: c standardGender_plain)
  show "standardAge c \<noteq> ''All''" by (simp add: c standardAgeGroup_plain)
  show "\<not> isArrayIndex (standardSex c)" by (simp add: c standardGender_plain)
  show "\<not> isArrayIndex (standardAge c)" by (simp add: c standardAgeGroup_plain)
qed

lemma aggregate_contributions:
  "aggregate numStr cols data = foldl accumulate emptyState (contributions numStr cols data)"
  by (simp add: aggregate_def foldl_processRow_contributions)

lemma keys_dietGroupsMap:
  "map fst (dietGroupsMap (foldl accumulate emptyState cs)) = firstSeen (map standardDiet cs)"
  by (simp add: dietGroupsMap_foldl keys_foldl_addTo emptyState_def)

lemma keys_genderGroupsMap:
  "map fst (genderGroupsMap (foldl accumulate emptyState cs)) = firstSeen (map standardSex cs)"
  by (simp add: genderGroupsMap_foldl keys_foldl_addTo emptyState_def)

lemma keys_ageGroupsMap:
  "map fst (ageGroupsMap (foldl accumulate emptyState cs)) = firstSeen (map standardAge cs)"
  by (simp add: ageGroupsMap_foldl keys_foldl_addTo emptyState_def)

lemma keys_dietGenderGroupsMap:
  "map (\<lambda>p. (fst p, map fst (snd p))) (dietGenderGroupsMap (foldl accumulate emptyState cs))
     = map (\<lambda>d. (d, firstSeen (map standardSex (filter (\<lambda>c. standardDiet c = d) cs))))
           (firstSeen (map standardDiet cs))"
  by (simp add: dietGenderGroupsMap_foldl keys2_foldl_addTo2 emptyState_def)

lemma keys_dietAgeGroupsMap:
  "map (\<lambda>p. (fst p, map fst (snd p))) (dietAgeGroupsMap (foldl accumulate emptyState cs))
     = map (\<lambda>d. (d, firstSeen (map standardAge (filter (\<lambda>c. standardDiet c = d) cs))))
           (firstSeen (map standardDiet cs))"
  by (simp add: dietAgeGroupsMap_foldl keys2_foldl_addTo2 emptyState_def)

lemma summary_labels [simp]:
  "dietGroup (summary d g a b) = d" "gender (summary d g a b) = g" "ageGroup (summary d g a b) = a"
  by (simp_all add: summary_def)


section \<open>Order of emission\<close>

lemma pairs_of_records:
  "map (\<lambda>r. (dietGroup r, gender r)) (dietGenderRecords st)
     = concat (map (\<lambda>p. map (\<lambda>e. (fst p, fst e)) (objEntries (snd p)))
                   (objEntries (dietGenderGroupsMap st)))"
  by (simp add: dietGenderRecords_def map_concat comp_def)

lemma pairs_of_age_records:
  "map (\<lambda>r. (dietGroup r, ageGroup r)) (dietAgeRecords st)
     = concat (map (\<lambda>p. map (\<lambda>e. (fst p, fst e)) (objEntries (snd p)))
                   (objEntries (dietAgeGroupsMap st)))"
  by (simp add: dietAgeRecords_def map_concat comp_def)

lemma nested_plain:
  assumes outer: "\<forall>k \<in> fst ` set m. \<not> isArrayIndex k"
      and inner: "\<forall>p \<in> set m. \<forall>k \<in> fst ` set (snd p). \<not> isArrayIndex k"
  shows "concat (map (\<lambda>p. map (\<lambda>e. (fst p, fst e)) (objEntries (snd p))) (objEntries m))
       = concat (map (\<lambda>q. map (Pair (fst q)) (snd q)) (map (\<lambda>p. (fst p, map fst (snd p))) m))"
proof -
  have e: "objEntries m = m" using outer by (simp add: objEntries_plain)
  have i: "map (\<lambda>p. map (\<lambda>e. (fst p, fst e)) (objEntries (snd p))) m
      = map (\<lambda>p. map (Pair (fst p)) (map fst (snd p))) m"
    using inner by (intro map_cong refl) (auto simp: objEntries_plain)
  show ?thesis unfolding e i by (simp add: comp_def)
qed

lemma nested_inner_keys:
  assumes "map (\<lambda>p. (fst p, map fst (snd p))) m = map (\<lambda>d. (d, F d)) L"
      and "p \<in> set m"
  shows "map fst (snd p) = F (fst p)" "fst p \<in> set L"
proof -
  from assms(2) have "(fst p, map fst (snd p)) \<in> set (map (\<lambda>p. (fst p, map fst (snd p))) m)"
    by force
  then have "(fst p, map fst (snd p)) \<in> set (map (\<lambda>d. (d, F d)) L)"
    by (simp only: assms(1))
  then show "map fst (snd p) = F (fst p)" "fst p \<in> set L" by auto
qed

lemma nested_outer_keys:
  assumes "map (\<lambda>p. (fst p, map fst (snd p))) m = map (\<lambda>d. (d, F d)) L"
  shows "map fst m = L"
proof -
  have "map fst m = map fst (map (\<lambda>p. (fst p, map fst (snd p))) m)" by (simp add: comp_def)
  also have "\<dots> = L" by (simp only: assms) (simp add: comp_def)
  finally show ?thesis .
qed

text \<open>
  C3 (as amended). The gender-only records and the age-only records are emitted in the
  order in which each label is first met among the kept rows. When no diet-group label
  is an array index (a canonical decimal numeral below \<open>2^32 - 1\<close>, which an object lists
  first), the diet-only records are emitted in first-met order too, and the records of
  the two combined kinds are emitted grouped by diet group, the diet groups in first-met
  order and, inside one diet group, the second labels in the order in which they are
  first met among the rows of that diet group.
\<close>

theorem emission_order:
  "map gender (genderRecords (aggregate numStr cols data))
      = firstSeen (map standardSex (contributions numStr cols data))
   \<and> map ageGroup (ageRecords (aggregate numStr cols data))
      = firstSeen (map standardAge (contributions numStr cols data))
   \<and> ((\<forall>c \<in> set (contributions numStr cols data). \<not> isArrayIndex (standardDiet c)) \<longrightarrow>
        map dietGroup (dietRecords (aggregate numStr cols data))
          = firstSeen (map standardDiet (contributions numStr cols data))
        \<and> map (\<lambda>r. (dietGroup r, gender r)) (dietGenderRecords (aggregate numStr cols data))
          = concat (map (\<lambda>d. map (Pair d)
                (firstSeen (map standardSex
                   (filter (\<lambda>c. standardDiet c = d) (contributions numStr cols data)))))
              (firstSeen (map standardDiet (contributions numStr cols data))))
        \<and> map (\<lambda>r. (dietGroup r, ageGroup r)) (dietAgeRecords (aggregate numStr cols data))
          = concat (map (\<lambda>d. map (Pair d)
                (firstSeen (map standardAge
                   (filter (\<lambda>c. standardDiet c = d) (contributions numStr cols data)))))
              (firstSeen (map standardDiet (contributions numStr cols data)))))"
proof -
  let ?cs = "contributions numStr cols data"
  let ?st = "foldl accumulate emptyState ?cs"
  have st: "aggregate numStr cols data = ?st" by (rule aggregate_contributions)
  have sexPlain: "\<forall>c \<in> set ?cs. \<not> isArrayIndex (standardSex c)"
    using contribution_labels(4) by blast
  have agePlain: "\<forall>c \<in> set ?cs. \<not> isArrayIndex (standardAge c)"
    using contribution_labels(5) by blast
  have g: "map gender (genderRecords ?st) = firstSeen (map standardSex ?cs)"
  proof -
    have "\<forall>k \<in> set (map fst (genderGroupsMap ?st)). \<not> isArrayIndex k"
      using sexPlain by (auto simp: keys_genderGroupsMap)
    then have "objEntries (genderGroupsMap ?st) = genderGroupsMap ?st"
      by (rule objEntries_plain)
    then show ?thesis by (simp add: genderRecords_def comp_def keys_genderGroupsMap)
  qed
  have a: "map ageGroup (ageRecords ?st) = firstSeen (map standardAge ?cs)"
  proof -
    have "\<forall>k \<in> set (map fst (ageGroupsMap ?st)). \<not> isArrayIndex k"
      using agePlain by (auto simp: keys_ageGroupsMap)
    then have "objEntries (ageGroupsMap ?st) = ageGroupsMap ?st"
      by (rule objEntries_plain)
    then show ?thesis by (simp add: ageRecords_def comp_def keys_ageGroupsMap)
  qed
  have d: "map dietGroup (dietRecords ?st) = firstSeen (map standardDiet ?cs)"
    if dietPlain: "\<forall>c \<in> set ?cs. \<not> isArrayIndex (standardDiet c)"
  proof -
    have "\<forall>k \<in> set (map fst (dietGroupsMap ?st)). \<not> isArrayIndex k"
      using dietPlain by (auto simp: keys_dietGroupsMap)
    then have "objEntries (dietGroupsMap ?st) = dietGroupsMap ?st"
      by (rule objEntries_plain)
    then show ?thesis by (simp add: dietRecords_def comp_def keys_dietGroupsMap)
  qed
  have dg: "map (\<lambda>r. (dietGroup r, gender r)) (dietGenderRecords ?st)
      = concat (map (\<lambda>d. map (Pair d)
            (firstSeen (map standardSex (filter (\<lambda>c. standardDiet c = d) ?cs))))
          (firstSeen (map standardDiet ?cs)))"
    if dietPlain: "\<forall>c \<in> set ?cs. \<not> isArrayIndex (standardDiet c)"
  proof -
    let ?m = "dietGenderGroupsMap ?st"
    note k = keys_dietGenderGroupsMap [of ?cs]
    have outer: "\<forall>k \<in> fst ` set ?m. \<not> isArrayIndex k"
    proof -
      have "map fst ?m = firstSeen (map standardDiet ?cs)" by (rule nested_outer_keys [OF k])
      then have "fst ` set ?m = standardDiet ` set ?cs" by (metis set_map set_firstSeen)
      then show ?thesis using dietPlain by auto
    qed
    have inner: "\<forall>p \<in> set ?m. \<forall>k \<in> fst ` set (snd p). \<not> isArrayIndex k"
    proof (intro ballI)
      fix p k assume p: "p \<in> set ?m" and "k \<in> fst ` set (snd p)"
      then have "k \<in> set (map fst (snd p))" by simp
      then have "k \<in> standardSex ` set ?cs"
        by (simp only: nested_inner_keys(1) [OF k p]) auto
      then show "\<not> isArrayIndex k" using sexPlain by auto
    qed
    show ?thesis
      by (simp only: pairs_of_records nested_plain [OF outer inner] k) (simp add: comp_def)
  qed
  have da: "map (\<lambda>r. (dietGroup r, ageGroup r)) (dietAgeRecords ?st)
      = concat (map (\<lambda>d. map (Pair d)
            (firstSeen (map standardAge (filter (\<lambda>c. standardDiet c = d) ?cs))))
          (firstSeen (map standardDiet ?cs)))"
    if dietPlain: "\<forall>c \<in> set ?cs. \<not> isArrayIndex (standardDiet c)"
  proof -
    let ?m = "dietAgeGroupsMap ?st"
    note k = keys_dietAgeGroupsMap [of ?cs]
    have outer: "\<forall>k \<in> fst ` set ?m. \<not> isArrayIndex k"
    proof -
      have "map fst ?m = firstSeen (map standardDiet ?cs)" by (rule nested_outer_keys [OF k])
      then have "fst ` set ?m = standardDiet ` set ?cs" by (metis set_map set_firstSeen)
      then show ?thesis using dietPlain by auto
    qed
    have inner: "\<forall>p \<in> set ?m. \<forall>k \<in> fst ` set (snd p). \<not> isArrayIndex k"
    proof (intro ballI)
      fix p k assume p: "p \<in> set ?m" and "k \<in> fst ` set (snd p)"
      then have "k \<in> set (map fst (snd p))" by simp
      then have "k \<in> standardAge ` set ?cs"
        by (simp only: nested_inner_keys(1) [OF k p]) auto
      then show "\<not> isArrayIndex k" using agePlain by auto
    qed
    show ?thesis
      by (simp only: pairs_of_age_records nested_plain [OF outer inner] k) (simp add: comp_def)
  qed
  from g a d dg da show ?thesis unfolding st by blast
qed

lemma contributions_data3:
  "contributions (\<lambda>n. []) (actualColumns data3) data3 =
   [\<lparr>standardDiet = ''vegan'', standardSex = ''Female'', standardAge = ''Unknown'',
      numbers = \<lparr>ghgs = Fin 0, landUse = Fin 0, waterScarcity = Fin 0, eutrophication = Fin 0,
        acidification = Fin 0, mean_bio = Fin 0\<rparr>\<rparr>,
    \<lparr>standardDiet = ''fish'', standardSex = ''Female'', standardAge = ''Unknown'',
      numbers = \<lparr>ghgs = Fin 0, landUse = Fin 0, waterScarcity = Fin 0, eutrophication = Fin 0,
        acidification = Fin 0, mean_bio = Fin 0\<rparr>\<rparr>,
    \<lparr>standardDiet = ''vegan'', standardSex = ''Male'', standardAge = ''Unknown'',
      numbers = \<lparr>ghgs = Fin 0, landUse = Fin 0, waterScarcity = Fin 0, eutrophication = Fin 0,
        acidification = Fin 0, mean_bio = Fin 0\<rparr>\<rparr>]"
  by code_simp

theorem emission_order_witness:
  "map gender (genderRecords (aggregate (\<lambda>n. []) (actualColumns data3) data3))
     = [''Female'', ''Male'']
   \<and> map ageGroup (ageRecords (aggregate (\<lambda>n. []) (actualColumns data3) data3))
     = [''Unknown'']
   \<and> map dietGroup (dietRecords (aggregate (\<lambda>n. []) (actualColumns data3) data3))
     = [''vegan'', ''fish'']
   \<and> map (\<lambda>r. (dietGroup r, gender r))
          (dietGenderRecords (aggregate (\<lambda>n. []) (actualColumns data3) data3))
     = [(''vegan'', ''Female''), (''vegan'', ''Male''), (''fish'', ''Female'')]
   \<and> map (\<lambda>r. (dietGroup r, ageGroup r))
          (dietAgeRecords (aggregate (\<lambda>n. []) (actualColumns data3) data3))
     = [(''vegan'', ''Unknown''), (''fish'', ''Unknown'')]"
proof -
  have plain: "\<forall>c \<in> set (contributions (\<lambda>n. []) (actualColumns data3) data3).
                 \<not> isArrayIndex (standardDiet c)"
    by (simp add: contributions_data3 isArrayIndex_def isDigit_def)
  show ?thesis
    using emission_order [of "\<lambda>n. []" "actualColumns data3" data3] plain
    by (simp add: contributions_data3)
qed

lemma pairs_data3:
  "map (\<lambda>r. (dietGroup r, gender r))
       (dietGenderRecords (aggregate (\<lambda>n. []) (actualColumns data3) data3))
     = [(''vegan'', ''Female''), (''vegan'', ''Male''), (''fish'', ''Female'')]"
  by code_simp

lemma actualColumns_data3n: "actualColumns data3n ''dietGroup'' = Some ''diet_group''"
  by code_simp

lemma contributions_data3n_cols:
  "cols ''dietGroup'' = Some ''diet_group'' \<Longrightarrow>
   map standardDiet (contributions numStr3 cols data3n) = [''10'', ''9'']"
  by (simp add: contributions_def parseRow_def data3n_def rowGet_def cleanString_def
      falsy_def jsToString_def numStr3_def trim_def toLowerCase_def lowerChar_def isWhiteSpace_def
      standardDietGroup_def mappingGet_def dietGroupMapping_def objectPrototype_def Let_def)

lemma contributions_data3n:
  "map standardDiet (contributions numStr3 (actualColumns data3n) data3n) = [''10'', ''9'']"
  using actualColumns_data3n by (rule contributions_data3n_cols [of "actualColumns data3n"])

lemma dietRecords_data3n:
  "map dietGroup (dietRecords (aggregate numStr3 (actualColumns data3n) data3n)) = [''9'', ''10'']"
proof -
  have "map fst (dietGroupsMap (aggregate numStr3 (actualColumns data3n) data3n)) = [''10'', ''9'']"
    by (simp add: aggregate_contributions keys_dietGroupsMap contributions_data3n)
  then obtain b1 b2 where
    m: "dietGroupsMap (aggregate numStr3 (actualColumns data3n) data3n) = [(''10'', b1), (''9'', b2)]"
    by (auto simp: map_eq_Cons_conv)
  show ?thesis
    by (simp add: dietRecords_def m objEntries_def isArrayIndex_def isDigit_def decimalValue_def
        digitVal_def)
qed

text \<open>
  C3 fails as stated. With the rows (vegan, female), (fish, female), (vegan, male) the
  pair (vegan, Male) is emitted before (fish, Female), although it is met later. With
  the diet groups 10 and 9, in this order, the record of 9 is emitted first.
\<close>

theorem emission_order_counterexample:
  "map (\<lambda>r. (dietGroup r, gender r))
       (dietGenderRecords (aggregate (\<lambda>n. []) (actualColumns data3) data3))
     = [(''vegan'', ''Female''), (''vegan'', ''Male''), (''fish'', ''Female'')]
   \<and> firstSeen (map (\<lambda>c. (standardDiet c, standardSex c))
                     (contributions (\<lambda>n. []) (actualColumns data3) data3))
     = [(''vegan'', ''Female''), (''fish'', ''Female''), (''vegan'', ''Male'')]
   \<and> map dietGroup (dietRecords (aggregate numStr3 (actualColumns data3n) data3n))
     = [''9'', ''10'']
   \<and> firstSeen (map standardDiet (contributions numStr3 (actualColumns data3n) data3n))
     = [''10'', ''9'']"
  by (simp add: pairs_data3 contributions_data3 dietRecords_data3n contributions_data3n)


section \<open>The kinds of summary records\<close>

lemma set_nested_pairs:
  "set (concat (map (\<lambda>p. map (\<lambda>e. (fst p, fst e)) (objEntries (snd p))) (objEntries m)))
     = set (concat (map (\<lambda>q. map (Pair (fst q)) (snd q)) (map (\<lambda>p. (fst p, map fst (snd p))) m)))"
  by (auto simp: comp_def)

lemma set_firstSeen_pairs:
  "set (concat (map (\<lambda>q. map (Pair (fst q)) (snd q))
                    (map (\<lambda>d. (d, firstSeen (map k2 (filter (\<lambda>c. k1 c = d) cs))))
                         (firstSeen (map k1 cs)))))
     = (\<lambda>c. (k1 c, k2 c)) ` set cs"
proof -
  have "(k1 x, k2 y) \<in> (\<lambda>c. (k1 c, k2 c)) ` set cs" if "y \<in> set cs" "k1 y = k1 x" for x y
    using that by (metis (mono_tags, lifting) image_eqI)
  then show ?thesis by (auto simp: comp_def)
qed




lemma dietGenderRecords_set:
  "(\<lambda>r. (dietGroup r, gender r)) ` set (dietGenderRecords (aggregate numStr cols data))
     = (\<lambda>c. (standardDiet c, standardSex c)) ` set (contributions numStr cols data)"
proof -
  have "(\<lambda>r. (dietGroup r, gender r)) ` set (dietGenderRecords (aggregate numStr cols data))
      = set (map (\<lambda>r. (dietGroup r, gender r)) (dietGenderRecords (aggregate numStr cols data)))"
    by simp
  also have "\<dots> = (\<lambda>c. (standardDiet c, standardSex c)) ` set (contributions numStr cols data)"
    by (simp only: pairs_of_records set_nested_pairs aggregate_contributions
        keys_dietGenderGroupsMap set_firstSeen_pairs)
  finally show ?thesis .
qed

lemma dietAgeRecords_set:
  "(\<lambda>r. (dietGroup r, ageGroup r)) ` set (dietAgeRecords (aggregate numStr cols data))
     = (\<lambda>c. (standardDiet c, standardAge c)) ` set (contributions numStr cols data)"
proof -
  have "(\<lambda>r. (dietGroup r, ageGroup r)) ` set (dietAgeRecords (aggregate numStr cols data))
      = set (map (\<lambda>r. (dietGroup r, ageGroup r)) (dietAgeRecords (aggregate numStr cols data)))"
    by simp
  also have "\<dots> = (\<lambda>c. (standardDiet c, standardAge c)) ` set (contributions numStr cols data)"
    by (simp only: pairs_of_age_records set_nested_pairs aggregate_contributions
        keys_dietAgeGroupsMap set_firstSeen_pairs)
  finally show ?thesis .
qed

lemma dietRecords_All: "r \<in> set (dietRecords st) \<Longrightarrow> gender r = ''All'' \<and> ageGroup r = ''All''"
  by (auto simp: dietRecords_def)

lemma genderRecords_All: "r \<in> set (genderRecords st) \<Longrightarrow> dietGroup r = ''All'' \<and> ageGroup r = ''All''"
  by (auto simp: genderRecords_def)

lemma ageRecords_All: "r \<in> set (ageRecords st) \<Longrightarrow> dietGroup r = ''All'' \<and> gender r = ''All''"
  by (auto simp: ageRecords_def)


lemma dietAgeRecords_All: "r \<in> set (dietAgeRecords st) \<Longrightarrow> gender r = ''All''"
  by (auto simp: dietAgeRecords_def)












section \<open>Missing values and the mean\<close>

text \<open>
  C1 does not hold of the code. Three rows of the diet group vegan whose greenhouse-gas
  cells are 10, empty and 20: the empty cell is coerced to 0, passes the \<open>isNaN\<close> test
  and is pushed, so that every bucket of the three rows averages over three values and
  reports 10 and not 15.
\<close>

theorem missing_value_counted:
  "map (\<lambda>r. (dietGroup r, gender r, ageGroup r, ghgs r)) (loadData (\<lambda>n. []) data1)
     = [(''vegan'', ''All'', ''All'', Fin 10),
        (''All'', ''Unknown'', ''All'', Fin 10),
        (''All'', ''All'', ''Unknown'', Fin 10),
        (''vegan'', ''Unknown'', ''All'', Fin 10),
        (''vegan'', ''All'', ''Unknown'', Fin 10)]
   \<and> map ghgs (map snd (dietGroupsMap (aggregate (\<lambda>n. []) (actualColumns data1) data1)))
     = [[Fin 10, Fin 0, Fin 20]]"
  by code_simp


section \<open>Category canonicalisation\<close>

lemma upper_names:
  "\<forall>n \<in> set (map fst objectPrototype) - {''constructor'', ''__proto__''}.
      \<exists>c \<in> set n. c \<in> set ''ABCDEFGHIJKLMNOPQRSTUVWXYZ''"
  by (simp add: objectPrototype_def)

lemma inherited_lower:
  assumes "\<forall>c \<in> set d. c \<notin> set ''ABCDEFGHIJKLMNOPQRSTUVWXYZ''"
      and "d \<noteq> ''constructor''" and "d \<noteq> ''__proto__''"
  shows "map_of objectPrototype d = None"
proof -
  have "d \<notin> set (map fst objectPrototype)"
    using upper_names assms by blast
  then show ?thesis by (simp add: map_of_eq_None_iff)
qed

lemma standardDietGroup_table:
  "standardDietGroup ''vegan'' = ''vegan''"
  "standardDietGroup ''veggie'' = ''vegetarian''"
  "standardDietGroup ''fish'' = ''fish''"
  "standardDietGroup ''meat'' = ''low_meat''"
  "standardDietGroup ''meat50'' = ''medium_meat''"
  "standardDietGroup ''meat100'' = ''high_meat''"
  by (simp_all add: standardDietGroup_def mappingGet_def dietGroupMapping_def)

lemma standardDietGroup_other:
  "map_of objectPrototype d = None \<Longrightarrow>
   d \<notin> {''vegan'', ''veggie'', ''fish'', ''meat'', ''meat50'', ''meat100''} \<Longrightarrow>
   standardDietGroup d = d"
  by (simp add: standardDietGroup_def mappingGet_def dietGroupMapping_def)

lemma standardGender_table:
  "standardGender ''female'' = ''Female''"
  "standardGender ''male'' = ''Male''"
  by (simp_all add: standardGender_def mappingGet_def genderMapping_def)

lemma standardGender_other:
  "map_of objectPrototype g = None \<Longrightarrow> g \<notin> {''female'', ''male''} \<Longrightarrow>
   standardGender g = ''Unknown''"
  by (simp add: standardGender_def mappingGet_def genderMapping_def)

lemma standardAgeGroup_table:
  "a \<in> {''20-29'', ''30-39'', ''40-49'', ''50-59'', ''60-69'', ''70-79''} \<Longrightarrow>
   standardAgeGroup a = a"
  by (auto simp: standardAgeGroup_def mappingGet_def ageGroupMapping_def)

lemma standardAgeGroup_other:
  "map_of objectPrototype a = None \<Longrightarrow>
   a \<notin> {''20-29'', ''30-39'', ''40-49'', ''50-59'', ''60-69'', ''70-79''} \<Longrightarrow>
   standardAgeGroup a = ''Unknown''"
  by (simp add: standardAgeGroup_def mappingGet_def ageGroupMapping_def)

text \<open>
  What the three lookups do on every cleaned code except the two lower-case names that
  an object literal inherits, \<open>constructor\<close> and \<open>__proto__\<close>: the tables are applied, an
  unlisted diet code is kept as it is, an unlisted or empty gender or age code becomes
  \<open>Unknown\<close>.
\<close>

lemma canonical_labels:
  assumes "parseRow numStr cols r = Some c"
      and "d = cleanString numStr (rowGet r (cols ''dietGroup''))"
      and "g = cleanString numStr (rowGet r (cols ''gender''))"
      and "a = cleanString numStr (rowGet r (cols ''ageGroup''))"
  shows "d = ''vegan'' \<Longrightarrow> standardDiet c = ''vegan''"
    and "d = ''veggie'' \<Longrightarrow> standardDiet c = ''vegetarian''"
    and "d = ''fish'' \<Longrightarrow> standardDiet c = ''fish''"
    and "d = ''meat'' \<Longrightarrow> standardDiet c = ''low_meat''"
    and "d = ''meat50'' \<Longrightarrow> standardDiet c = ''medium_meat''"
    and "d = ''meat100'' \<Longrightarrow> standardDiet c = ''high_meat''"
    and "d \<notin> {''vegan'', ''veggie'', ''fish'', ''meat'', ''meat50'', ''meat100'',
               ''constructor'', ''__proto__''} \<Longrightarrow> standardDiet c = d"
    and "g = ''female'' \<Longrightarrow> standardSex c = ''Female''"
    and "g = ''male'' \<Longrightarrow> standardSex c = ''Male''"
    and "g \<notin> {''female'', ''male'', ''constructor'', ''__proto__''} \<Longrightarrow> standardSex c = ''Unknown''"
    and "a \<in> {''20-29'', ''30-39'', ''40-49'', ''50-59'', ''60-69'', ''70-79''}
           \<Longrightarrow> standardAge c = a"
    and "a \<notin> {''20-29'', ''30-39'', ''40-49'', ''50-59'', ''60-69'', ''70-79'',
               ''constructor'', ''__proto__''} \<Longrightarrow> standardAge c = ''Unknown''"
proof -
  from assms have c: "standardDiet c = standardDietGroup d"
      "standardSex c = standardGender g" "standardAge c = standardAgeGroup a"
    by (auto simp: parseRow_def Let_def split: if_splits)
  have inh: "map_of objectPrototype (cleanString numStr v) = None"
    if "cleanString numStr v \<noteq> ''constructor''" "cleanString numStr v \<noteq> ''__proto__''" for v
  proof (rule inherited_lower [OF _ that])
    show "\<forall>ch \<in> set (cleanString numStr v). ch \<notin> set ''ABCDEFGHIJKLMNOPQRSTUVWXYZ''"
      using cleanString_no_upper by blast
  qed
  show "d = ''vegan'' \<Longrightarrow> standardDiet c = ''vegan''"
    by (simp add: c standardDietGroup_table)
  show "d = ''veggie'' \<Longrightarrow> standardDiet c = ''vegetarian''"
    by (simp add: c standardDietGroup_table)
  show "d = ''fish'' \<Longrightarrow> standardDiet c = ''fish''"
    by (simp add: c standardDietGroup_table)
  show "d = ''meat'' \<Longrightarrow> standardDiet c = ''low_meat''"
    by (simp add: c standardDietGroup_table)
  show "d = ''meat50'' \<Longrightarrow> standardDiet c = ''medium_meat''"
    by (simp add: c standardDietGroup_table)
  show "d = ''meat100'' \<Longrightarrow> standardDiet c = ''high_meat''"
    by (simp add: c standardDietGroup_table)
  show "standardDiet c = d"
    if "d \<notin> {''vegan'', ''veggie'', ''fish'', ''meat'', ''meat50'', ''meat100'',
               ''constructor'', ''__proto__''}"
  proof -
    from that have "map_of objectPrototype d = None"
      unfolding assms(2) by (intro inh) simp_all
    with that show ?thesis by (simp only: c standardDietGroup_other) (simp add: standardDietGroup_other)
  qed
  show "g = ''female'' \<Longrightarrow> standardSex c = ''Female''"
    by (simp add: c standardGender_table)
  show "g = ''male'' \<Longrightarrow> standardSex c = ''Male''"
    by (simp add: c standardGender_table)
  show "standardSex c = ''Unknown''"
    if "g \<notin> {''female'', ''male'', ''constructor'', ''__proto__''}"
  proof -
    from that have "map_of objectPrototype g = None"
      unfolding assms(3) by (intro inh) simp_all
    with that show ?thesis by (simp add: c standardGender_other)
  qed
  show "a \<in> {''20-29'', ''30-39'', ''40-49'', ''50-59'', ''60-69'', ''70-79''}
           \<Longrightarrow> standardAge c = a"
    by (simp only: c standardAgeGroup_table)
  show "standardAge c = ''Unknown''"
    if "a \<notin> {''20-29'', ''30-39'', ''40-49'', ''50-59'', ''60-69'', ''70-79'',
               ''constructor'', ''__proto__''}"
  proof -
    from that have "map_of objectPrototype a = None"
      unfolding assms(4) by (intro inh) simp_all
    with that show ?thesis by (simp add: c standardAgeGroup_other)
  qed
qed

text \<open>
  C6 does not hold of the code for the codes \<open>constructor\<close> and \<open>__proto__\<close>. The lookup
  \<^verbatim>\<open>genderMapping[gender] || 'Unknown'\<close> finds the inherited property, which is truthy,
  so the gender code \<open>constructor\<close> is not mapped to \<open>Unknown\<close>: the label is the text of
  the inherited function. For the same reason the diet code \<open>constructor\<close> is not
  passed through verbatim, and the age code \<open>__proto__\<close> is not mapped to \<open>Unknown\<close>.
\<close>

theorem inherited_codes:
  "map (\<lambda>c. (standardDiet c, standardSex c, standardAge c))
       (contributions (\<lambda>n. []) (actualColumns data6) data6)
     = [(''vegetarian'', ''function Object() { [native code] }'', ''20-29''),
        (''function Object() { [native code] }'', ''Unknown'', ''[object Object]'')]
   \<and> map gender (genderRecords (aggregate (\<lambda>n. []) (actualColumns data6) data6))
     = [''function Object() { [native code] }'', ''Unknown'']"
  by code_simp


section \<open>Column reconciliation\<close>

text \<open>
  What the reconciler does in general. For a field of \<open>columnMap\<close> the header kept is the
  first one, in the order in which the row's keys were created, whose lower-cased and
  trimmed form is an accepted name: the keys that an object lists out of creation order
  are decimal numerals and match no accepted name. An unmapped field reads as absent in
  every row that has no key \<open>undefined\<close>.
\<close>

lemma lowerChar_digits: "\<forall>c \<in> set ''0123456789''. lowerChar c = c"
  by (simp add: lowerChar_def)

lemma lowerChar_digit: "isDigit c \<Longrightarrow> lowerChar c = c"
  unfolding isDigit_def using lowerChar_digits by blast

lemma toLowerCase_digits: "list_all isDigit k \<Longrightarrow> toLowerCase k = k"
  by (induction k) (simp_all add: toLowerCase_def lowerChar_digit)

lemma digits_not_space: "\<forall>c \<in> set ''0123456789''. \<not> isWhiteSpace c"
  by (simp add: isWhiteSpace_def)

lemma digit_not_space: "isDigit c \<Longrightarrow> \<not> isWhiteSpace c"
  unfolding isDigit_def using digits_not_space by blast

lemma dropWhile_digits: "list_all isDigit k \<Longrightarrow> dropWhile isWhiteSpace k = k"
  by (cases k) (simp_all add: digit_not_space)

lemma trim_digits: "list_all isDigit k \<Longrightarrow> trim k = k"
proof -
  assume d: "list_all isDigit k"
  then have "list_all isDigit (rev k)" by (simp add: list_all_iff)
  with d show ?thesis by (simp add: trim_def dropWhile_digits)
qed

lemma alias_not_digits:
  "\<forall>e \<in> set columnMap. \<forall>n \<in> set (snd e). \<not> list_all isDigit n"
  by (simp add: columnMap_def isDigit_def)

lemma find_append_None: "find P xs = None \<Longrightarrow> find P (xs @ ys) = find P ys"
  by (induction xs) (auto split: if_splits)

lemma find_filter_implied: "(\<And>x. P x \<Longrightarrow> Q x) \<Longrightarrow> find P (filter Q xs) = find P xs"
  by (induction xs) auto

lemma find_objKeys:
  assumes "\<And>k. P k \<Longrightarrow> \<not> isArrayIndex k"
  shows "find P (objKeys m) = find P (map fst m)"
proof -
  let ?I = "\<lambda>e. isArrayIndex (fst e)"
  have "find P (map fst (sort_key (\<lambda>e. decimalValue (fst e)) (filter ?I m))) = None"
    using assms by (auto simp: find_None_iff)
  then have "find P (objKeys m) = find P (map fst (filter (\<lambda>e. \<not> ?I e) m))"
    by (simp add: objKeys_def objEntries_def find_append_None)
  also have "map fst (filter (\<lambda>e. \<not> ?I e) m) = filter (\<lambda>k. \<not> isArrayIndex k) (map fst m)"
    by (simp add: filter_map comp_def)
  also have "find P \<dots> = find P (map fst m)"
    using assms by (intro find_filter_implied) auto
  finally show ?thesis .
qed

lemma actualColumns_first_match:
  assumes "map_of columnMap targetField = Some possibleNames"
  shows "actualColumns (sampleRow # rest) targetField
           = find (\<lambda>column. trim (toLowerCase column) \<in> set possibleNames) (map fst sampleRow)"
proof -
  let ?P = "\<lambda>column. trim (toLowerCase column) \<in> set possibleNames"
  from assms have e: "(targetField, possibleNames) \<in> set columnMap" by (rule map_of_SomeD)
  have nd: "\<not> list_all isDigit n" if "n \<in> set possibleNames" for n
    using alias_not_digits e that by fastforce
  have plain: "\<not> isArrayIndex k" if "?P k" for k
  proof
    assume "isArrayIndex k"
    then have d: "list_all isDigit k" by (simp add: isArrayIndex_def)
    then have "trim (toLowerCase k) = k" by (simp add: toLowerCase_digits trim_digits)
    with that have "k \<in> set possibleNames" by simp
    with nd d show False by blast
  qed
  have nonempty: "c \<noteq> []" if "?P c" for c
  proof
    assume "c = []"
    with that have "[] \<in> set possibleNames" by (simp add: toLowerCase_def trim_def)
    then show False using nd [of "[]"] by simp
  qed
  have "findColumn (objKeys sampleRow) possibleNames = find ?P (objKeys sampleRow)"
  proof (cases "find ?P (objKeys sampleRow)")
    case None
    then show ?thesis by (simp add: findColumn_def)
  next
    case (Some c)
    then have "?P c" by (auto simp: find_Some_iff)
    from nonempty [OF this] Some show ?thesis by (simp add: findColumn_def)
  qed
  also have "\<dots> = find ?P (map fst sampleRow)"
    by (rule find_objKeys) (rule plain)
  finally show ?thesis by (simp add: actualColumns_def assms)
qed

lemma unmapped_absent:
  assumes "cols field = None" "map_of r ''undefined'' = None"
  shows "rowGet r (cols field) = JUndefined"
    and "cleanString numStr (rowGet r (cols field)) = []"
    and "safeParseFloat numStr (rowGet r (cols field)) = Fin 0"
  using assms by (simp_all add: rowGet_def cleanString_def safeParseFloat_def falsy_def)

text \<open>
  C9 does not hold of the code when the table has a column named \<open>undefined\<close>. No header
  of \<open>data9\<close> is an accepted name of the diet-group field, so the field is left unmapped;
  \<^verbatim>\<open>row[actualColumns.dietGroup]\<close> is then \<^verbatim>\<open>row[undefined]\<close>, which reads the column
  \<open>undefined\<close>: the value is not treated as absent, the row is kept with the diet group
  \<open>vegan\<close> and five summary records are produced.
\<close>

theorem undefined_column_read:
  "actualColumns data9 ''dietGroup'' = None
   \<and> cleanString (\<lambda>n. []) (rowGet (hd data9) (actualColumns data9 ''dietGroup'')) = ''vegan''
   \<and> map (\<lambda>r. (dietGroup r, gender r, ageGroup r)) (loadData (\<lambda>n. []) data9)
     = [(''vegan'', ''All'', ''All''), (''All'', ''Female'', ''All''),
        (''All'', ''All'', ''Unknown''), (''vegan'', ''Female'', ''All''),
        (''vegan'', ''All'', ''Unknown'')]"
  by code_simp


section \<open>Normalisation in the 3D chart\<close>

lemma foldl_const_update:
  "d \<in> set ds \<Longrightarrow> foldl (\<lambda>m k. m(k \<mapsto> V)) m0 ds d = Some V"
  by (induction ds rule: rev_induct) auto

lemma foldl_const_update_absent:
  "d \<notin> set ds \<Longrightarrow> foldl (\<lambda>m k. m(k \<mapsto> V)) m0 ds d = m0 d"
  by (induction ds rule: rev_induct) auto

lemma initCombined_cell:
  assumes "d \<in> set ds" "a \<in> set as"
  shows "\<exists>inner. initCombined ds as d = Some inner \<and> inner a = Some Map.empty"
  using assms by (simp add: initCombined_def foldl_const_update)


lemma foldl_update_source:
  "foldl (\<lambda>c j. c(f j \<mapsto> g j)) c0 inds k = Some x \<Longrightarrow>
   c0 k = Some x \<or> (\<exists>i \<in> set inds. k = f i \<and> x = g i)"
  by (induction inds rule: rev_induct) (auto split: if_splits)

lemma fillItem_other:
  "(dietGroup item, ageGroup item) \<noteq> (d, a) \<Longrightarrow> cd d = Some inner \<Longrightarrow> inner a = Some cell \<Longrightarrow>
   \<exists>inner'. fillItem fd cd item d = Some inner' \<and> inner' a = Some cell"
  by (auto simp: fillItem_def split: option.splits)

lemma fillItem_same:
  "dietGroup item = d \<Longrightarrow> ageGroup item = a \<Longrightarrow> cd d = Some inner \<Longrightarrow> inner a = Some cell \<Longrightarrow>
   \<exists>inner'. fillItem fd cd item d = Some inner' \<and>
      inner' a = Some (fillCell fd item cell)"
  by (auto simp: fillItem_def split: option.splits)

lemma foldl_fillItem_cell:
  assumes "cd d = Some inner" "inner a = Some cell"
  shows "\<exists>inner'. foldl (fillItem fd) cd items d = Some inner' \<and>
           inner' a = Some (foldl (\<lambda>c item. fillCell fd item c)
                              cell (filter (\<lambda>item. dietGroup item = d \<and> ageGroup item = a) items))"
  using assms
proof (induction items arbitrary: cd inner cell)
  case Nil
  then show ?case by simp
next
  case (Cons item items)
  show ?case
  proof (cases "dietGroup item = d \<and> ageGroup item = a")
    case True
    with fillItem_same [of item d a cd inner cell fd] Cons.prems
    obtain inner' where f1: "fillItem fd cd item d = Some inner'"
      and f2: "inner' a = Some (fillCell fd item cell)"
      by auto
    from Cons.IH [of "fillItem fd cd item" inner', OF f1 f2] True show ?thesis by simp
  next
    case False
    with fillItem_other [of item d a cd inner cell fd] Cons.prems
    obtain inner' where f1: "fillItem fd cd item d = Some inner'" and f2: "inner' a = Some cell"
      by auto
    from Cons.IH [of "fillItem fd cd item" inner', OF f1 f2] False show ?thesis by auto
  qed
qed


lemma points_shape:
  assumes "p \<in> set (seriesPoints srt fd ind)"
  shows "\<exists>d \<in> set (uniqueDietGroups srt fd). \<exists>a \<in> set (uniqueAgeGroups srt fd).
           normalizedValue p = lookupNormalized (combinedData srt fd) d a (ind_value ind)
         \<and> rawValue p = lookupRaw fd d a (ind_value ind)"
  using assms by (fastforce simp: seriesPoints_def)

lemma combinedData_cell:
  assumes "d \<in> set (uniqueDietGroups srt fd)" "a \<in> set (uniqueAgeGroups srt fd)"
  shows "\<exists>inner. combinedData srt fd d = Some inner \<and>
           inner a = Some (foldl (\<lambda>c item. fillCell fd item c) Map.empty
                              (filter (\<lambda>item. dietGroup item = d \<and> ageGroup item = a) fd))"
proof -
  from initCombined_cell [OF assms] obtain inner where
    i: "initCombined (uniqueDietGroups srt fd) (uniqueAgeGroups srt fd) d = Some inner"
       "inner a = Some Map.empty" by auto
  show ?thesis
    unfolding combinedData_def
    by (rule foldl_fillItem_cell
          [of "initCombined (uniqueDietGroups srt fd) (uniqueAgeGroups srt fd)" d inner a, OF i])
qed

lemma fillCell_source:
  "foldl (\<lambda>c item. fillCell fd item c) c0 items name = Some x \<Longrightarrow>
   c0 name = Some x \<or>
   (\<exists>item \<in> set items. \<exists>ind \<in> set indicators. name = ind_value ind \<and> x = normalize fd item ind)"
proof (induction items arbitrary: c0)
  case Nil
  then show ?case by simp
next
  case (Cons item items)
  from Cons.IH [of "fillCell fd item c0"] Cons.prems
  have "fillCell fd item c0 name = Some x \<or>
   (\<exists>item \<in> set items. \<exists>ind \<in> set indicators. name = ind_value ind \<and> x = normalize fd item ind)"
    by simp
  then show ?case
  proof
    assume "fillCell fd item c0 name = Some x"
    from foldl_update_source [OF this [unfolded fillCell_def]] show ?thesis by auto
  next
    assume "\<exists>item \<in> set items. \<exists>ind \<in> set indicators. name = ind_value ind \<and> x = normalize fd item ind"
    then show ?thesis by auto
  qed
qed

lemma lookupNormalized_source:
  assumes "d \<in> set (uniqueDietGroups srt fd)" "a \<in> set (uniqueAgeGroups srt fd)"
  shows "lookupNormalized (combinedData srt fd) d a name = Fin 0 \<or>
         (\<exists>item \<in> set fd. \<exists>ind \<in> set indicators.
             name = ind_value ind \<and>
             lookupNormalized (combinedData srt fd) d a name = orZero (normalize fd item ind))"
proof -
  from combinedData_cell [OF assms] obtain inner where
    c: "combinedData srt fd d = Some inner"
       "inner a = Some (foldl (\<lambda>c item. fillCell fd item c) Map.empty
                              (filter (\<lambda>item. dietGroup item = d \<and> ageGroup item = a) fd))"
    by auto
  let ?cell = "foldl (\<lambda>c item. fillCell fd item c) Map.empty
                 (filter (\<lambda>item. dietGroup item = d \<and> ageGroup item = a) fd)"
  show ?thesis
  proof (cases "?cell name")
    case None
    then show ?thesis by (simp add: lookupNormalized_def c)
  next
    case (Some x)
    from fillCell_source [OF Some] obtain item ind where
      "item \<in> set fd" "ind \<in> set indicators" "name = ind_value ind" "x = normalize fd item ind"
      by auto
    moreover have "lookupNormalized (combinedData srt fd) d a name = orZero x"
      by (simp add: lookupNormalized_def c Some)
    ultimately show ?thesis by blast
  qed
qed

lemma foldl_jsmax_zero:
  "\<forall>x \<in> set xs. x = Fin 0 \<Longrightarrow> acc = NInf \<or> acc = Fin 0 \<Longrightarrow>
   foldl jsmax acc xs = (if xs = [] then acc else Fin 0)"
  by (induction xs arbitrary: acc) auto

lemma maxValues_zero:
  assumes "fd \<noteq> []" "\<forall>item \<in> set fd. indicatorValue item name = Fin 0"
  shows "maxValues fd name = Fin 0"
  using assms foldl_jsmax_zero [of "map (\<lambda>d. indicatorValue d name) fd" NInf]
  by (simp add: maxValues_def mathMax_def)

lemma normalize_zero:
  assumes "item \<in> set fd" "\<forall>item \<in> set fd. indicatorValue item (ind_value ind) = Fin 0"
  shows "orZero (normalize fd item ind) = Fin 0"
proof -
  from assms have "fd \<noteq> []" by auto
  from maxValues_zero [OF this assms(2)] assms show ?thesis
    by (simp add: normalize_def orZero_def)
qed



lemma distinct_ind_labels: "distinct (map ind_label indicators)"
  by (simp add: indicators_def)



lemma indicator_by_label:
  "i \<in> set indicators \<Longrightarrow> j \<in> set indicators \<Longrightarrow> ind_label i = ind_label j \<Longrightarrow> i = j"
  using distinct_ind_labels by (meson distinct_map inj_onD)

lemma series_of_indicator:
  assumes "s \<in> set (seriesData (processedData srt dietData))"
      and "ind \<in> set indicators" and "series_name s = ind_label ind"
  shows "filteredData dietData \<noteq> []"
    and "series_data s = seriesPoints srt (filteredData dietData) ind"
proof -
  show ne: "filteredData dietData \<noteq> []"
    using assms(1) by (auto simp: processedData_def Let_def split: if_splits)
  with assms(1) obtain i where i: "i \<in> set indicators"
      "s = \<lparr>series_name = ind_label i, series_data = seriesPoints srt (filteredData dietData) i\<rparr>"
    by (auto simp: processedData_def Let_def)
  with assms(3) have "ind_label i = ind_label ind" by simp
  with i(1) assms(2) have "i = ind" by (rule indicator_by_label)
  with i(2) show "series_data s = seriesPoints srt (filteredData dietData) ind" by simp
qed

text \<open>
  When every raw mean of an indicator in the filtered diet-by-age subset is zero, the
  maximum of the indicator is 0 and every data point of the indicator's series carries
  the normalised value 0: the quotient 0/0 is \<open>NaN\<close>, and \<open>|| 0\<close> turns it into 0 when the
  point is emitted.
\<close>

lemma all_zero_gives_zero:
  assumes "ind \<in> set indicators"
      and "\<forall>item \<in> set (filteredData dietData). indicatorValue item (ind_value ind) = Fin 0"
      and "s \<in> set (seriesData (processedData srt dietData))"
      and "series_name s = ind_label ind"
      and "p \<in> set (series_data s)"
  shows "maxValues (filteredData dietData) (ind_value ind) = Fin 0 \<and> normalizedValue p = Fin 0"
proof -
  let ?fd = "filteredData dietData"
  note s = series_of_indicator [OF assms(3) assms(1) assms(4)]
  from s(1) assms(2) have m: "maxValues ?fd (ind_value ind) = Fin 0" by (rule maxValues_zero)
  from assms(5) s(2) have "p \<in> set (seriesPoints srt ?fd ind)" by simp
  from points_shape [OF this] obtain d a where
    da: "d \<in> set (uniqueDietGroups srt ?fd)" "a \<in> set (uniqueAgeGroups srt ?fd)"
    and n: "normalizedValue p = lookupNormalized (combinedData srt ?fd) d a (ind_value ind)"
    by auto
  from lookupNormalized_source [OF da, of "ind_value ind"] have "normalizedValue p = Fin 0"
  proof
    assume "lookupNormalized (combinedData srt ?fd) d a (ind_value ind) = Fin 0"
    with n show ?thesis by simp
  next
    assume "\<exists>item \<in> set ?fd. \<exists>i \<in> set indicators. ind_value ind = ind_value i \<and>
       lookupNormalized (combinedData srt ?fd) d a (ind_value ind) = orZero (normalize ?fd item i)"
    then obtain item i where i: "item \<in> set ?fd" "ind_value ind = ind_value i"
       "lookupNormalized (combinedData srt ?fd) d a (ind_value ind) = orZero (normalize ?fd item i)"
      by auto
    from assms(2) i(2) have "\<forall>item \<in> set ?fd. indicatorValue item (ind_value i) = Fin 0" by simp
    from normalize_zero [OF i(1) this] i(3) n show ?thesis by simp
  qed
  with m show ?thesis by simp
qed

lemma jsmax_Fin:
  "jsmax x y = Fin c \<Longrightarrow>
     (x = NInf \<or> (\<exists>u. x = Fin u \<and> u \<le> c)) \<and> (y = NInf \<or> (\<exists>u. y = Fin u \<and> u \<le> c))"
  by (cases x; cases y) auto

lemma jsmax_NInf: "jsmax x y = NInf \<Longrightarrow> x = NInf \<and> y = NInf"
  by (cases x; cases y) auto

lemma foldl_jsmax_bound:
  "foldl jsmax acc xs = Fin m \<Longrightarrow>
     (acc = NInf \<or> (\<exists>u. acc = Fin u \<and> u \<le> m))
     \<and> (\<forall>x \<in> set xs. x = NInf \<or> (\<exists>u. x = Fin u \<and> u \<le> m))"
proof (induction xs arbitrary: acc)
  case Nil
  then show ?case by simp
next
  case (Cons x xs)
  from Cons.IH [of "jsmax acc x"] Cons.prems
  have ih: "(jsmax acc x = NInf \<or> (\<exists>u. jsmax acc x = Fin u \<and> u \<le> m))"
       "\<forall>y \<in> set xs. y = NInf \<or> (\<exists>u. y = Fin u \<and> u \<le> m)"
    by auto
  from ih(1) have "(acc = NInf \<or> (\<exists>u. acc = Fin u \<and> u \<le> m))
       \<and> (x = NInf \<or> (\<exists>u. x = Fin u \<and> u \<le> m))"
  proof
    assume "jsmax acc x = NInf"
    from jsmax_NInf [OF this] show ?thesis by simp
  next
    assume "\<exists>u. jsmax acc x = Fin u \<and> u \<le> m"
    then obtain u where u: "jsmax acc x = Fin u" "u \<le> m" by auto
    from jsmax_Fin [OF u(1)] u(2) show ?thesis by force
  qed
  with ih(2) show ?case by simp
qed

lemma maxValues_bound:
  assumes "maxValues fd name = Fin m" "item \<in> set fd" "indicatorValue item name = Fin v"
  shows "v \<le> m"
proof -
  from assms(1) have "foldl jsmax NInf (map (\<lambda>d. indicatorValue d name) fd) = Fin m"
    by (simp add: maxValues_def mathMax_def)
  from foldl_jsmax_bound [OF this] assms(2)
  have "indicatorValue item name = NInf \<or> (\<exists>u. indicatorValue item name = Fin u \<and> u \<le> m)"
    by auto
  with assms(3) show ?thesis by simp
qed

text \<open>
  With non-negative raw values, a maximum of 0 means that every raw value is 0.
\<close>

lemma maxValues_zero_nonneg:
  assumes "maxValues fd name = Fin 0"
      and "\<forall>item \<in> set fd. \<exists>v. 0 \<le> v \<and> indicatorValue item name = Fin v"
  shows "\<forall>item \<in> set fd. indicatorValue item name = Fin 0"
proof
  fix item assume i: "item \<in> set fd"
  with assms(2) obtain v where v: "0 \<le> v" "indicatorValue item name = Fin v" by auto
  from maxValues_bound [OF assms(1) i v(2)] v show "indicatorValue item name = Fin 0" by simp
qed

text \<open>
  C4 (as amended). When the raw means of an indicator in the filtered diet-by-age subset
  are non-negative numbers and their maximum is 0, every data point of the indicator's
  series carries the normalised value 0, neither \<open>NaN\<close> nor an infinity.
\<close>

theorem zero_maximum_gives_zero:
  assumes "ind \<in> set indicators"
      and "\<forall>item \<in> set (filteredData dietData).
              \<exists>v. 0 \<le> v \<and> indicatorValue item (ind_value ind) = Fin v"
      and "maxValues (filteredData dietData) (ind_value ind) = Fin 0"
      and "s \<in> set (seriesData (processedData srt dietData))"
      and "series_name s = ind_label ind"
      and "p \<in> set (series_data s)"
  shows "normalizedValue p = Fin 0"
proof -
  from maxValues_zero_nonneg [OF assms(3) assms(2)]
  have "\<forall>item \<in> set (filteredData dietData). indicatorValue item (ind_value ind) = Fin 0" .
  from all_zero_gives_zero [OF assms(1) this assms(4) assms(5) assms(6)]
  show ?thesis by simp
qed








lemma filteredData_chart4:
  "filteredData chart4 = [chartItem ''fish'' ''All'' ''30-39'' 4, chartItem ''vegan'' ''All'' ''20-29'' 2]"
  by (simp add: filteredData_def chart4_def chartItem_def)

lemma uniqueDietGroups_chart4:
  "uniqueDietGroups insertionSort (filteredData chart4) = [''vegan'', ''fish'']"
  by (simp add: filteredData_chart4 uniqueDietGroups_def chartItem_def setAdd_def insertionSort_def
      orderCompare_def dietOrder_def)

lemma uniqueAgeGroups_chart4:
  "uniqueAgeGroups insertionSort (filteredData chart4) = [''20-29'', ''30-39'']"
  by (simp add: filteredData_chart4 uniqueAgeGroups_def chartItem_def setAdd_def insertionSort_def
      orderCompare_def ageOrder_def)

lemma seriesData_chart4:
  "seriesData (processedData insertionSort chart4)
     = map (\<lambda>ind. \<lparr>series_name = ind_label ind,
                     series_data = seriesPoints insertionSort (filteredData chart4) ind\<rparr>) indicators"
  by (simp add: processedData_def Let_def filteredData_chart4)

lemma seriesPoints_chart4_nonempty:
  "seriesPoints insertionSort (filteredData chart4) ind \<noteq> []"
  by (simp add: seriesPoints_def uniqueDietGroups_chart4 uniqueAgeGroups_chart4)

theorem zero_maximum_gives_zero_witness:
  "normalizedValue (hd (series_data (seriesData (processedData insertionSort chart4) ! 1))) = Fin 0"
proof -
  let ?ind = "\<lparr>ind_value = ''landUse'', ind_label = ''Land Use'', weight = Fin (5 / 10)\<rparr>"
  let ?s = "seriesData (processedData insertionSort chart4) ! 1"
  have i: "?ind \<in> set indicators" by (simp add: indicators_def)
  have nn: "\<forall>item \<in> set (filteredData chart4).
              \<exists>v. 0 \<le> v \<and> indicatorValue item (ind_value ?ind) = Fin v"
    by (simp add: filteredData_chart4 chartItem_def indicatorValue_def)
  have m: "maxValues (filteredData chart4) (ind_value ?ind) = Fin 0"
    by (simp add: filteredData_chart4 chartItem_def indicatorValue_def maxValues_def mathMax_def)
  have s: "?s \<in> set (seriesData (processedData insertionSort chart4))"
    by (rule nth_mem) (simp add: seriesData_chart4 indicators_def)
  have sd: "?s = \<lparr>series_name = ind_label ?ind,
                  series_data = seriesPoints insertionSort (filteredData chart4) ?ind\<rparr>"
    by (simp add: seriesData_chart4 indicators_def)
  have n: "series_name ?s = ind_label ?ind" unfolding sd by simp
  have p: "hd (series_data ?s) \<in> set (series_data ?s)"
    unfolding sd by (simp add: seriesPoints_chart4_nonempty)
  from zero_maximum_gives_zero [OF i nn m s n p] show ?thesis .
qed

text \<open>
  C4 fails as stated. From the rows (fish, 30-39, land use 0) and (vegan, 20-29, land
  use -3) \<^verbatim>\<open>loadData\<close> computes the land-use means 0 and -3 of the two diet-by-age
  buckets; their maximum is 0, and the point of the bucket (vegan, 20-29) carries
  \<open>-3 / 0 * 0.5\<close>, which is \<open>-Infinity\<close> and is not replaced by \<open>|| 0\<close>.
\<close>

theorem zero_maximum_gives_zero_counterexample:
  "map (\<lambda>r. (dietGroup r, ageGroup r, landUse r)) (filteredData (loadData (\<lambda>n. []) dataNeg))
     = [(''fish'', ''30-39'', Fin 0), (''vegan'', ''20-29'', Fin (- 3))]
   \<and> maxValues (filteredData (loadData (\<lambda>n. []) dataNeg)) ''landUse'' = Fin 0
   \<and> map normalizedValue
         (series_data (seriesData (processedData insertionSort (loadData (\<lambda>n. []) dataNeg)) ! 1))
     = [NInf, Fin 0, Fin 0, Fin 0]"
  by code_simp



text \<open>
  The records that \<^verbatim>\<open>loadData\<close> produces and the chart keeps are the diet-by-age records,
  one for each bucket.
\<close>

lemma distinct_objEntries_keys:
  assumes "distinct (map fst m)"
  shows "distinct (map fst (objEntries m))"
proof -
  from assms have d: "distinct m" and i: "inj_on fst (set m)" by (auto simp: distinct_map)
  have "distinct (objEntries m)"
    using d by (auto simp: objEntries_def)
  moreover have "inj_on fst (set (objEntries m))" using i by simp
  ultimately show ?thesis by (simp add: distinct_map)
qed

lemma distinct_pairs:
  "distinct (map fst m) \<Longrightarrow> \<forall>p \<in> set m. distinct (snd p) \<Longrightarrow>
   distinct (concat (map (\<lambda>p. map (Pair (fst p)) (snd p)) m))"
  by (induction m) (auto simp: distinct_map inj_on_def)

lemma distinct_nested_entries:
  assumes "distinct (map fst m)" "\<forall>p \<in> set m. distinct (map fst (snd p))"
  shows "distinct (concat (map (\<lambda>p. map (\<lambda>e. (fst p, fst e)) (objEntries (snd p))) (objEntries m)))"
proof -
  let ?k = "map (\<lambda>p. (fst p, map fst (objEntries (snd p)))) (objEntries m)"
  have "map fst ?k = map fst (objEntries m)" by (simp add: comp_def)
  with distinct_objEntries_keys [OF assms(1)] have 1: "distinct (map fst ?k)" by (simp only:)
  have 2: "\<forall>p \<in> set ?k. distinct (snd p)"
    using assms(2) by (auto intro: distinct_objEntries_keys)
  from distinct_pairs [OF 1 2] show ?thesis by (simp add: comp_def)
qed

lemma dietAgeRecords_distinct:
  "distinct (map (\<lambda>r. (dietGroup r, ageGroup r)) (dietAgeRecords (aggregate numStr cols data)))"
proof -
  let ?cs = "contributions numStr cols data"
  let ?m = "dietAgeGroupsMap (foldl accumulate emptyState ?cs)"
  note k = keys_dietAgeGroupsMap [of ?cs]
  have "map fst ?m = firstSeen (map standardDiet ?cs)" by (rule nested_outer_keys [OF k])
  then have 1: "distinct (map fst ?m)" by simp
  have 2: "\<forall>p \<in> set ?m. distinct (map fst (snd p))"
  proof
    fix p assume "p \<in> set ?m"
    from nested_inner_keys(1) [OF k this] show "distinct (map fst (snd p))" by simp
  qed
  from distinct_nested_entries [OF 1 2] show ?thesis
    by (simp only: pairs_of_age_records aggregate_contributions)
qed

lemma filteredData_loadData:
  "filteredData (loadData numStr data) = dietAgeRecords (aggregate numStr (actualColumns data) data)"
proof -
  let ?st = "aggregate numStr (actualColumns data) data"
  let ?P = "\<lambda>item. dietGroup item \<noteq> ''All'' \<and> ageGroup item \<noteq> ''All'' \<and> gender item = ''All''"
  have f: "filteredData dd = filter ?P dd" for dd
    by (cases dd) (simp_all add: filteredData_def)
  have 1: "filter ?P (dietRecords ?st) = []"
    using dietRecords_All by (auto simp: filter_empty_conv)
  have 2: "filter ?P (genderRecords ?st) = []"
    using genderRecords_All by (auto simp: filter_empty_conv)
  have 3: "filter ?P (ageRecords ?st) = []"
    using ageRecords_All by (auto simp: filter_empty_conv)
  have 4: "filter ?P (dietGenderRecords ?st) = []"
  proof -
    have "gender r \<noteq> ''All''" if "r \<in> set (dietGenderRecords ?st)" for r
    proof -
      from that have "(dietGroup r, gender r)
          \<in> (\<lambda>c. (standardDiet c, standardSex c)) ` set (contributions numStr (actualColumns data) data)"
        by (simp only: dietGenderRecords_set [symmetric]) simp
      then show ?thesis using contribution_labels(2) by fastforce
    qed
    then show ?thesis by (auto simp: filter_empty_conv)
  qed
  have 5: "filter ?P (dietAgeRecords ?st) = dietAgeRecords ?st"
  proof -
    have "?P r" if "r \<in> set (dietAgeRecords ?st)" for r
    proof -
      from that have "(dietGroup r, ageGroup r)
          \<in> (\<lambda>c. (standardDiet c, standardAge c)) ` set (contributions numStr (actualColumns data) data)"
        by (simp only: dietAgeRecords_set [symmetric]) simp
      then have "dietGroup r \<noteq> ''All'' \<and> ageGroup r \<noteq> ''All''"
        using contribution_labels(1,3) by fastforce
      with dietAgeRecords_All [OF that] show ?thesis by simp
    qed
    then show ?thesis by (simp add: filter_id_conv)
  qed
  show ?thesis
    by (simp only: f loadData_def summaryRecords_def filter_append 1 2 3 4 5) simp
qed

lemma engine_output_one_record_per_bucket:
  "distinct (map (\<lambda>item. (dietGroup item, ageGroup item)) (filteredData (loadData numStr data)))"
  by (simp only: filteredData_loadData dietAgeRecords_distinct)

end
